theory Spec2Isabelle
  imports Main
begin

section \<open>Cluster objects and the API client\<close>

text \<open>
  The command-line tool talks to a Kubernetes cluster through a client with \<open>Get\<close> and
  \<open>Create\<close>. The cluster is outside the program, so every answer of the client is a
  parameter of the model (record \<open>env\<close> below) and every call the program makes is
  appended to a log (\<open>api_calls\<close>). An answer may depend on the calls made so far.
\<close>

text \<open>\<open>resource.Quantity\<close>: the value parsed from a text. The parse error is discarded by
  the source (\<open>capacity, _ := resource.ParseQuantity(cap)\<close>), so a quantity is kept as the
  text it was parsed from; its rendering \<open>String()\<close> is the canonical form of that text
  (\<open>quantity_canonical\<close> of the record \<open>env\<close> below).\<close>

datatype quantity = Quantity string

text \<open>Errors of the API server, as \<open>k8s.io/apimachinery/pkg/api/errors\<close> classifies them.\<close>

datatype kerr = AlreadyExists | NotFound | OtherFailure string

definition IsAlreadyExists :: "kerr \<Rightarrow> bool" where
  "IsAlreadyExists e = (e = AlreadyExists)"

record persistentVolumeClaim =
  pvc_Name :: string
  pvc_Namespace :: string
  pvc_ClusterName :: string
  pvc_AccessModes :: "string list"
  pvc_StorageClassName :: "string option"
  pvc_Requests_storage :: "quantity option"

text \<open>\<open>pvc.Spec.Resources.Requests.Storage()\<close> never returns nil: a missing entry is the
  zero quantity.\<close>

definition Requests_Storage :: "persistentVolumeClaim \<Rightarrow> quantity" where
  "Requests_Storage p =
     (case pvc_Requests_storage p of None \<Rightarrow> Quantity ''0'' | Some q \<Rightarrow> q)"

text \<open>\<open>ReplicationDestinationRsyncSpec\<close>, the fields the commands read or write.\<close>

record rsyncSpec =
  CopyMethod :: string
  Capacity :: "quantity option"
  StorageClassName :: "string option"
  AccessModes :: "string list"
  DestinationPVC :: "string option"
  ServiceType :: "string option"
  Address :: "string option"
  Port :: "int option"
  SSHKeys :: "string option"

definition emptyRsyncSpec :: rsyncSpec where
  "emptyRsyncSpec = \<lparr> CopyMethod = [], Capacity = None, StorageClassName = None,
     AccessModes = [], DestinationPVC = None, ServiceType = None, Address = None,
     Port = None, SSHKeys = None \<rparr>"

record rsyncStatus =
  st_Address :: "string option"
  st_Port :: "int option"
  st_SSHKeys :: "string option"

text \<open>\<open>Status\<close> is a pointer (the source tests it against nil); \<open>Status.Rsync\<close> is a
  pointer in the API type as well, and the source dereferences it unchecked.\<close>

record replicationDestinationStatus =
  rds_Rsync :: "rsyncStatus option"

record replicationDestination =
  rd_Name :: string
  rd_Namespace :: string
  rd_Rsync :: rsyncSpec
  rd_Status :: "replicationDestinationStatus option"

record triggerSpec =
  trg_Schedule :: "string option"
  trg_Manual :: string

record resticSpec =
  restic_Repository :: string
  restic_CopyMethod :: string

record replicationSourceStatus =
  rss_LastManualSync :: string

record replicationSource =
  rs_Name :: string
  rs_Namespace :: string
  rs_SourcePVC :: string
  rs_Trigger :: "triggerSpec option"
  rs_Restic :: "resticSpec option"
  rs_Status :: "replicationSourceStatus option"

record secret =
  sec_Name :: string
  sec_Namespace :: string
  sec_StringData :: "(string \<times> string) list"

datatype object =
    ONamespace string
  | OPVC persistentVolumeClaim
  | OSecret secret
  | ORD replicationDestination
  | ORS replicationSource

datatype kind = KPVC | KRD | KRS

datatype call = Get kind string string | Create object

text \<open>A call that changes the cluster.\<close>

fun is_mutating :: "call \<Rightarrow> bool" where
  "is_mutating (Create _) = True"
| "is_mutating (Get _ _ _) = False"

fun is_pvc_create :: "call \<Rightarrow> bool" where
  "is_pvc_create (Create (OPVC _)) = True"
| "is_pvc_create _ = False"

section \<open>Errors of the tool\<close>

text \<open>One constructor per error the source builds; \<open>Wrapf msg e\<close> is
  \<open>fmt.Errorf(msg + "%w", e)\<close>, where \<open>e\<close> may be nil.\<close>

datatype error =
    ApiError kerr
  | FlagNotDefined string
  | MalformedIdentifier string
  | ClusterUnreachable string
  | UnsupportedCopyMethod string
  | UnsupportedAccessMode string
  | UnsupportedServiceType string
  | MissingCapacity string
  | MissingCapacityErr "error option"
  | StoreIOError string
  | ErrWaitTimeout
  | ManualTriggerNotSpecified
  | ErrNotExist
  | ErrInvalid
  | ReadConfigError string
  | CronParseError string
  | PVCInUse string "string list"
  | Panic string
  | Wrapf string "error option"

text \<open>\<open>fmt.Errorf(msg + "%w", err)\<close> around the error of a call that may panic: a panic
  is not an error value, it passes the wrapper as it is.\<close>

fun Errorf :: "string \<Rightarrow> error \<Rightarrow> error" where
  "Errorf msg (Panic p) = Panic p"
| "Errorf msg err = Wrapf msg (Some err)"

fun is_unsupported_option :: "error \<Rightarrow> bool" where
  "is_unsupported_option (UnsupportedCopyMethod _) = True"
| "is_unsupported_option (UnsupportedAccessMode _) = True"
| "is_unsupported_option (UnsupportedServiceType _) = True"
| "is_unsupported_option _ = False"

fun is_missing_capacity :: "error \<Rightarrow> bool" where
  "is_missing_capacity (MissingCapacity _) = True"
| "is_missing_capacity (MissingCapacityErr _) = True"
| "is_missing_capacity _ = False"

section \<open>The relationship record and the config store\<close>

record migrationRelationshipDestination =
  mrd_Cluster :: string
  mrd_Namespace :: string
  mrd_PVCName :: string
  mrd_PVC :: "persistentVolumeClaim option"
  mrd_MDName :: string
  mrd_SSHKeyName :: string
  mrd_Destination :: rsyncSpec

definition emptyDestination :: migrationRelationshipDestination where
  "emptyDestination = \<lparr> mrd_Cluster = [], mrd_Namespace = [], mrd_PVCName = [],
     mrd_PVC = None, mrd_MDName = [], mrd_SSHKeyName = [],
     mrd_Destination = emptyRsyncSpec \<rparr>"

record migrationRelationshipSource =
  mrs_Volume :: string
  mrs_Size :: "quantity option"

record migrationRelationshipData =
  md_Version :: int
  md_Source :: "migrationRelationshipSource option"
  md_Destination :: "migrationRelationshipDestination option"

record pvBackupRelationshipSource =
  prs_Cluster :: string
  prs_Namespace :: string
  prs_PVCName :: string
  prs_RSName :: string
  prs_Repository :: string
  prs_Schedule :: "string option"

definition emptyBackupSource :: pvBackupRelationshipSource where
  "emptyBackupSource = \<lparr> prs_Cluster = [], prs_Namespace = [], prs_PVCName = [],
     prs_RSName = [], prs_Repository = [], prs_Schedule = None \<rparr>"

record pvBackupRelationshipData =
  pd_Version :: int
  pd_Source :: "pvBackupRelationshipSource option"

text \<open>A value stored under a key of the relationship's configuration.\<close>

datatype cfgvalue =
    VMigration migrationRelationshipData
  | VBackup pvBackupRelationshipData
  | VString string
  | VStringOpt "string option"
  | VStrings "string list"
  | VIntOpt "int option"

type_synonym settings = "(string \<times> cfgvalue) list"

text \<open>Values of the restic configuration file: the source asserts that they are strings.\<close>

datatype confval = ConfString string | ConfOther

text \<open>What \<open>os.Stat\<close> and viper's \<open>ReadInConfig\<close> find under a file name: no such file, a
  file that cannot be read in (viper takes the format from the extension and refuses the
  ones it does not know, \<open>conf\<close> among them), or the keys of the file.\<close>

datatype conffile = NoSuchFile | Unreadable string | Config "string \<Rightarrow> confval option"

text \<open>Everything the source files take from outside: the command line, the cluster, the
  config store, the file system, the cron parser (\<open>cron_err\<close>: the error of
  \<open>parser.Parse\<close>, if any), the canonical form of a quantity's text
  (\<open>quantity_canonical\<close>: what \<open>resource.Quantity.String()\<close> renders, \<open>1Gi\<close> for
  \<open>1024Mi\<close>), and the two timeouts (in seconds), which are constants declared outside the
  source files.\<close>

record env =
  flags :: "string \<Rightarrow> string option"
  relationship_err :: "error option"
  newClient_err :: "string \<Rightarrow> error option"
  api_get_pvc :: "call list \<Rightarrow> string \<Rightarrow> string \<Rightarrow> kerr + persistentVolumeClaim"
  api_get_rd :: "call list \<Rightarrow> string \<Rightarrow> string \<Rightarrow> kerr + replicationDestination"
  api_get_rs :: "call list \<Rightarrow> string \<Rightarrow> string \<Rightarrow> kerr + replicationSource"
  api_create_pvc :: "call list \<Rightarrow> persistentVolumeClaim \<Rightarrow> kerr + persistentVolumeClaim"
  api_create :: "call list \<Rightarrow> object \<Rightarrow> kerr option"
  setdata_err :: "error option"
  save_err :: "error option"
  conf_files :: "string \<Rightarrow> conffile"
  cron_err :: "string \<Rightarrow> string option"
  quantity_canonical :: "string \<Rightarrow> string"
  defaultRsyncKeyTimeout :: nat
  defaultVolumeSyncTimeout :: nat

text \<open>What a run has done so far: the calls made to the cluster, the relationship
  records written to the config store, the files removed and the time slept.\<close>

record world =
  api_calls :: "call list"
  saved :: "settings list"
  removed :: "string list"
  clock :: nat

definition world0 :: world where
  "world0 = \<lparr> api_calls = [], saved = [], removed = [], clock = 0 \<rparr>"

text \<open>\<open>cmd.Flags().GetString(name)\<close>: an error when the flag is not defined.\<close>

definition GetString :: "env \<Rightarrow> string \<Rightarrow> error + string" where
  "GetString e name =
     (case flags e name of None \<Rightarrow> Inl (FlagNotDefined name) | Some v \<Rightarrow> Inr v)"

record relationship =
  rel_settings :: settings

definition rel_Set :: "string \<Rightarrow> cfgvalue \<Rightarrow> relationship \<Rightarrow> relationship" where
  "rel_Set k v r = r\<lparr> rel_settings := rel_settings r @ [(k, v)] \<rparr>"

text \<open>Modelled from the spec: \<open>CreateRelationshipFromCommand\<close> and \<open>Relationship.Save\<close>
  (the Relationship Store, section 4.2) are not among the source files. Creating a
  relationship may fail; \<open>save\<close> writes the record, or fails with a store error and
  writes nothing.\<close>

definition CreateRelationshipFromCommand :: "env \<Rightarrow> error + relationship" where
  "CreateRelationshipFromCommand e =
     (case relationship_err e of Some err \<Rightarrow> Inl err
      | None \<Rightarrow> Inr \<lparr> rel_settings = [] \<rparr>)"

definition Relationship_Save :: "env \<Rightarrow> relationship \<Rightarrow> world \<Rightarrow> error option \<times> world" where
  "Relationship_Save e r w =
     (case save_err e of Some err \<Rightarrow> (Some err, w)
      | None \<Rightarrow> (None, w\<lparr> saved := saved w @ [rel_settings r] \<rparr>))"

text \<open>Modelled from the spec: \<open>ParseXClusterName\<close> (the Locator, section 4.1) is not among
  the source files. Split on \<open>/\<close>; two segments are namespace and name, three are
  cluster, namespace and name; any other count, or an empty namespace or name, is
  malformed.\<close>

record xClusterName =
  xcr_Cluster :: string
  xcr_Namespace :: string
  xcr_Name :: string

fun split_on :: "char \<Rightarrow> string \<Rightarrow> string list" where
  "split_on c [] = [[]]"
| "split_on c (x # xs) =
     (if x = c then [] # split_on c xs
      else (case split_on c xs of [] \<Rightarrow> [[x]] | y # ys \<Rightarrow> (x # y) # ys))"

definition ParseXClusterName :: "string \<Rightarrow> error + xClusterName" where
  "ParseXClusterName name =
     (case split_on (CHR ''/'') name of
        [ns, n] \<Rightarrow>
          if ns = [] \<or> n = [] then Inl (MalformedIdentifier name)
          else Inr \<lparr> xcr_Cluster = [], xcr_Namespace = ns, xcr_Name = n \<rparr>
      | [c, ns, n] \<Rightarrow>
          if ns = [] \<or> n = [] then Inl (MalformedIdentifier name)
          else Inr \<lparr> xcr_Cluster = c, xcr_Namespace = ns, xcr_Name = n \<rparr>
      | _ \<Rightarrow> Inl (MalformedIdentifier name))"

text \<open>\<open>newClient(context)\<close>: the Cluster Client Factory, an external collaborator.\<close>

definition newClient :: "env \<Rightarrow> string \<Rightarrow> error option" where
  "newClient e cluster = newClient_err e cluster"

subsection \<open>Calls to the cluster\<close>

definition client_Get_pvc ::
  "env \<Rightarrow> string \<Rightarrow> string \<Rightarrow> world \<Rightarrow> (kerr + persistentVolumeClaim) \<times> world" where
  "client_Get_pvc e ns n w =
     (api_get_pvc e (api_calls w) ns n, w\<lparr> api_calls := api_calls w @ [Get KPVC ns n] \<rparr>)"

definition client_Get_rd ::
  "env \<Rightarrow> string \<Rightarrow> string \<Rightarrow> world \<Rightarrow> (kerr + replicationDestination) \<times> world" where
  "client_Get_rd e ns n w =
     (api_get_rd e (api_calls w) ns n, w\<lparr> api_calls := api_calls w @ [Get KRD ns n] \<rparr>)"

definition client_Get_rs ::
  "env \<Rightarrow> string \<Rightarrow> string \<Rightarrow> world \<Rightarrow> (kerr + replicationSource) \<times> world" where
  "client_Get_rs e ns n w =
     (api_get_rs e (api_calls w) ns n, w\<lparr> api_calls := api_calls w @ [Get KRS ns n] \<rparr>)"

definition client_Create_pvc ::
  "env \<Rightarrow> persistentVolumeClaim \<Rightarrow> world \<Rightarrow> (kerr + persistentVolumeClaim) \<times> world" where
  "client_Create_pvc e p w =
     (api_create_pvc e (api_calls w) p, w\<lparr> api_calls := api_calls w @ [Create (OPVC p)] \<rparr>)"

definition client_Create :: "env \<Rightarrow> object \<Rightarrow> world \<Rightarrow> kerr option \<times> world" where
  "client_Create e ob w =
     (api_create e (api_calls w) ob, w\<lparr> api_calls := api_calls w @ [Create ob] \<rparr>)"

section \<open>Constants of the API packages\<close>

definition CopyMethodDirect :: string where "CopyMethodDirect = ''Direct''"
definition CopyMethodNone :: string where "CopyMethodNone = ''None''"
definition CopyMethodClone :: string where "CopyMethodClone = ''Clone''"
definition CopyMethodSnapshot :: string where "CopyMethodSnapshot = ''Snapshot''"

definition ReadWriteOnce :: string where "ReadWriteOnce = ''ReadWriteOnce''"
definition ReadOnlyMany :: string where "ReadOnlyMany = ''ReadOnlyMany''"
definition ReadWriteMany :: string where "ReadWriteMany = ''ReadWriteMany''"
definition ReadWriteOncePod :: string where "ReadWriteOncePod = ''ReadWriteOncePod''"

definition ServiceTypeClusterIP :: string where "ServiceTypeClusterIP = ''ClusterIP''"
definition ServiceTypeNodePort :: string where "ServiceTypeNodePort = ''NodePort''"
definition ServiceTypeLoadBalancer :: string where "ServiceTypeLoadBalancer = ''LoadBalancer''"

lemmas api_consts =
  CopyMethodDirect_def CopyMethodNone_def CopyMethodClone_def CopyMethodSnapshot_def
  ReadWriteOnce_def ReadOnlyMany_def ReadWriteMany_def ReadWriteOncePod_def
  ServiceTypeClusterIP_def ServiceTypeNodePort_def ServiceTypeLoadBalancer_def

section \<open>The readiness wait\<close>

text \<open>Modelled from the spec: \<open>wait.PollImmediate(interval, timeout, condition)\<close> belongs to
  a library that is not among the source files; this is the Readiness Waiter of section
  4.5. The condition runs at once. An error of the condition ends the wait with that
  error; \<open>true\<close> ends it with success; on \<open>false\<close> the wait sleeps one interval and
  runs the condition again, until the time slept exceeds the timeout, which is
  \<open>ErrWaitTimeout\<close>. The argument \<open>t\<close> is the time slept so far, \<open>s\<close> the variables the
  condition closes over. The library refuses an interval of zero.\<close>

definition sleep :: "nat \<Rightarrow> world \<Rightarrow> world" where
  "sleep d w = w\<lparr> clock := clock w + d \<rparr>"

function waitLoop ::
  "nat \<Rightarrow> nat \<Rightarrow> nat \<Rightarrow> ('a \<Rightarrow> world \<Rightarrow> (error + bool) \<times> 'a \<times> world) \<Rightarrow> 'a \<Rightarrow> world
     \<Rightarrow> error option \<times> 'a \<times> world" where
  "waitLoop interval timeout t cond s w =
     (case cond s w of
        (Inl e, s', w') \<Rightarrow> (Some e, s', w')
      | (Inr True, s', w') \<Rightarrow> (None, s', w')
      | (Inr False, s', w') \<Rightarrow>
          if interval = 0 then (Some (Panic ''non-positive interval''), s', w')
          else if timeout < t + interval then (Some ErrWaitTimeout, s', sleep interval w')
          else waitLoop interval timeout (t + interval) cond s' (sleep interval w'))"
  by pat_completeness auto
termination
  by (relation "measure (\<lambda>(i, tmo, t, c, s, w). Suc tmo - t)") auto

definition PollImmediate ::
  "nat \<Rightarrow> nat \<Rightarrow> ('a \<Rightarrow> world \<Rightarrow> (error + bool) \<times> 'a \<times> world) \<Rightarrow> 'a \<Rightarrow> world
     \<Rightarrow> error option \<times> 'a \<times> world" where
  "PollImmediate interval timeout cond s w = waitLoop interval timeout 0 cond s w"

section \<open>Migration relationships (migration.go)\<close>

record migrationRelationship =
  mr_rel :: relationship
  mr_data :: migrationRelationshipData

text \<open>\<open>newmigrationRelationship\<close> (the same in both versions of migration.go).\<close>

definition newmigrationRelationship :: "env \<Rightarrow> error + migrationRelationship" where
  "newmigrationRelationship e =
     (case CreateRelationshipFromCommand e of
        Inl err \<Rightarrow> Inl err
      | Inr r \<Rightarrow> Inr \<lparr> mr_rel = r,
          mr_data = \<lparr> md_Version = 1, md_Source = None, md_Destination = None \<rparr> \<rparr>)"

text \<open>\<open>migrationRelationship.Save\<close>, first version of migration.go (lines 75-87): the data,
  and the capacity rendered as a string when there is one.\<close>

fun quantity_String :: "env \<Rightarrow> quantity \<Rightarrow> string" where
  "quantity_String e (Quantity s) = quantity_canonical e s"

definition destination_capacity :: "migrationRelationshipData \<Rightarrow> quantity option" where
  "destination_capacity d =
     (case md_Destination d of None \<Rightarrow> None | Some dst \<Rightarrow> Capacity (mrd_Destination dst))"

definition migrationRelationship_Save_b ::
  "env \<Rightarrow> migrationRelationship \<Rightarrow> world \<Rightarrow> error option \<times> world" where
  "migrationRelationship_Save_b e mr w =
     (let r1 = rel_Set ''data'' (VMigration (mr_data mr)) (mr_rel mr);
          r2 = (case destination_capacity (mr_data mr) of
                  None \<Rightarrow> r1
                | Some q \<Rightarrow>
                    rel_Set ''data.destination.destination.capacity''
                      (VString (quantity_String e q)) r1)
      in Relationship_Save e r2 w)"

text \<open>\<open>migrationRelationship.Save\<close>, second version of migration.go (lines 190-208): with a
  destination that has a capacity, every field is written under a key of its own.\<close>

definition destination_settings ::
  "env \<Rightarrow> migrationRelationshipDestination \<Rightarrow> quantity \<Rightarrow> settings" where
  "destination_settings e dst q =
     [(''data.destination.Cluster'', VString (mrd_Cluster dst)),
      (''data.destination.Namespace'', VString (mrd_Namespace dst)),
      (''data.destination.PVCName'', VString (mrd_PVCName dst)),
      (''data.destination.MDName'', VString (mrd_MDName dst)),
      (''data.destination.spec.ServiceType'', VStringOpt (ServiceType (mrd_Destination dst))),
      (''data.destination.spec.AccessModes'', VStrings (AccessModes (mrd_Destination dst))),
      (''data.destination.spec.CopyMethod'', VString (CopyMethod (mrd_Destination dst))),
      (''data.destination.spec.Capacity'', VString (quantity_String e q)),
      (''data.destination.spec.StorageClassName'',
         VStringOpt (StorageClassName (mrd_Destination dst))),
      (''data.destination.rsync.Address'', VStringOpt (Address (mrd_Destination dst))),
      (''data.destination.rsync.Port'', VIntOpt (Port (mrd_Destination dst))),
      (''data.destination.rsync.SSHKeys'', VStringOpt (SSHKeys (mrd_Destination dst)))]"

definition migrationRelationship_Save_a ::
  "env \<Rightarrow> migrationRelationship \<Rightarrow> world \<Rightarrow> error option \<times> world" where
  "migrationRelationship_Save_a e mr w =
     (let r1 = rel_Set ''data'' (VMigration (mr_data mr)) (mr_rel mr);
          r2 = (case md_Destination (mr_data mr) of
                  None \<Rightarrow> r1
                | Some dst \<Rightarrow>
                    (case Capacity (mrd_Destination dst) of
                       None \<Rightarrow> r1
                     | Some q \<Rightarrow>
                         r1\<lparr> rel_settings := rel_settings r1 @ destination_settings e dst q \<rparr>))
      in Relationship_Save e r2 w)"

section \<open>Creating a migration destination, first version (pvbackup.go, lines 105-462)\<close>

text \<open>\<open>getDestinationPVC\<close> (lines 389-403): nil on every error of \<open>Get\<close>.\<close>

definition getDestinationPVC_a ::
  "env \<Rightarrow> migrationRelationshipDestination \<Rightarrow> world \<Rightarrow> persistentVolumeClaim option \<times> world" where
  "getDestinationPVC_a e mrd w =
     (case client_Get_pvc e (mrd_Namespace mrd) (mrd_PVCName mrd) w of
        (Inr destPVC, w') \<Rightarrow> (Some destPVC, w')
      | (Inl err, w') \<Rightarrow> (None, w'))"

text \<open>\<open>newMigrationRelationshipDestination\<close> (lines 245-324), in the three blocks of the
  source: the checks before the cluster is asked, the volume, the service type and the
  name. \<open>mrd.Cluster\<close> is still empty when the client is made: the source never copies
  \<open>xcr.Cluster\<close> into it.\<close>

text \<open>Lines 249-274: copy method, PVC name, client.\<close>

definition newMRD_a_validate :: "env \<Rightarrow> error + migrationRelationshipDestination" where
  "newMRD_a_validate e =
    (case GetString e ''copymethod'' of
       Inl err \<Rightarrow> Inl (Wrapf ''failed to fetch the copy method, err = '' (Some err))
     | Inr cm \<Rightarrow>
    if cm \<noteq> CopyMethodDirect \<and> cm \<noteq> CopyMethodClone \<and> cm \<noteq> CopyMethodSnapshot
    then Inl (UnsupportedCopyMethod cm)
    else
    (case GetString e ''pvcname'' of
       Inl err \<Rightarrow> Inl err
     | Inr pvcname \<Rightarrow>
    (case ParseXClusterName pvcname of
       Inl err \<Rightarrow> Inl err
     | Inr xcr \<Rightarrow>
    (let mrd = emptyDestination\<lparr>
           mrd_Destination := emptyRsyncSpec\<lparr> CopyMethod := cm \<rparr>,
           mrd_PVCName := xcr_Name xcr,
           mrd_Namespace := xcr_Namespace xcr \<rparr>
     in
    (case newClient e (mrd_Cluster mrd) of
       Some err \<Rightarrow> Inl err
     | None \<Rightarrow> Inr mrd)))))"

text \<open>Lines 277-309: without a PVC, capacity, access mode and storage class come from the
  flags; with one, they are read from it.\<close>

definition newMRD_a_volume ::
  "env \<Rightarrow> persistentVolumeClaim option \<Rightarrow> migrationRelationshipDestination
     \<Rightarrow> error + migrationRelationshipDestination" where
  "newMRD_a_volume e pvc mrd =
     (case pvc of
        None \<Rightarrow>
          (case GetString e ''capacity'' of
             Inl err \<Rightarrow> Inl (MissingCapacity (mrd_PVCName mrd))
           | Inr cap \<Rightarrow>
          if cap = [] then Inl (MissingCapacity (mrd_PVCName mrd))
          else
          (case GetString e ''accessmodes'' of
             Inl err \<Rightarrow> Inl (Wrapf ''failed to fetch access mode, '' (Some err))
           | Inr accessMode \<Rightarrow>
          if accessMode \<noteq> ReadWriteOnce \<and> accessMode \<noteq> ReadOnlyMany \<and>
             accessMode \<noteq> ReadWriteMany \<and> accessMode \<noteq> ReadWriteOncePod
          then Inl (UnsupportedAccessMode accessMode)
          else
          (let storageClass =
                 (case GetString e ''storageclass'' of Inl err \<Rightarrow> [] | Inr sc \<Rightarrow> sc)
           in Inr (mrd\<lparr> mrd_Destination := (mrd_Destination mrd)\<lparr>
                  Capacity := Some (Quantity cap),
                  AccessModes := [accessMode],
                  StorageClassName := Some storageClass \<rparr> \<rparr>))))
      | Some p \<Rightarrow>
          Inr (mrd\<lparr> mrd_Destination := (mrd_Destination mrd)\<lparr>
                   Capacity := Some (Requests_Storage p),
                   AccessModes := pvc_AccessModes p,
                   StorageClassName := pvc_StorageClassName p \<rparr>,
                 mrd_Cluster := pvc_ClusterName p \<rparr>))"

text \<open>Lines 311-323: service type and the name of the destination object.\<close>

definition newMRD_a_service ::
  "env \<Rightarrow> migrationRelationshipDestination \<Rightarrow> error + migrationRelationshipDestination" where
  "newMRD_a_service e mrd =
    (case GetString e ''servicetype'' of
       Inl err \<Rightarrow> Inl (Wrapf ''please provide service type, err = '' (Some err))
     | Inr serviceType \<Rightarrow>
    if serviceType \<noteq> ServiceTypeClusterIP \<and> serviceType \<noteq> ServiceTypeLoadBalancer
    then Inl (UnsupportedServiceType serviceType)
    else
      Inr (mrd\<lparr>
          mrd_Destination := (mrd_Destination mrd)\<lparr> ServiceType := Some serviceType \<rparr>,
          mrd_MDName := mrd_Namespace mrd @ ''-'' @ mrd_PVCName mrd @ ''-migration-dest'' \<rparr>))"

text \<open>The function: the result carries \<open>mc.PVC\<close> beside the destination.\<close>

definition newMigrationRelationshipDestination_a ::
  "env \<Rightarrow> world \<Rightarrow>
     (error + persistentVolumeClaim option \<times> migrationRelationshipDestination) \<times> world" where
  "newMigrationRelationshipDestination_a e w =
     (case newMRD_a_validate e of
        Inl err \<Rightarrow> (Inl err, w)
      | Inr mrd1 \<Rightarrow>
     (case getDestinationPVC_a e mrd1 w of (pvc, w1) \<Rightarrow>
     (case newMRD_a_volume e pvc mrd1 of
        Inl err \<Rightarrow> (Inl err, w1)
      | Inr mrd2 \<Rightarrow>
     (case newMRD_a_service e mrd2 of
        Inl err \<Rightarrow> (Inl err, w1)
      | Inr mrd3 \<Rightarrow> (Inr (pvc, mrd3), w1)))))"

text \<open>\<open>createNamespace\<close> (lines 326-343).\<close>

definition createNamespace_a ::
  "env \<Rightarrow> migrationRelationshipDestination \<Rightarrow> world \<Rightarrow> error option \<times> world" where
  "createNamespace_a e mrd w =
     (case client_Create e (ONamespace (mrd_Namespace mrd)) w of
        (Some err, w') \<Rightarrow> if IsAlreadyExists err then (None, w') else (Some (ApiError err), w')
      | (None, w') \<Rightarrow> (None, w'))"

text \<open>\<open>createDestinationPVC\<close> (lines 345-387). The object submitted omits the storage class
  when it is empty; after the create the destination takes the storage class of the
  object as the server returned it.\<close>

definition createDestinationPVC_a ::
  "env \<Rightarrow> migrationRelationshipDestination \<Rightarrow> world \<Rightarrow>
     (error + persistentVolumeClaim \<times> migrationRelationshipDestination) \<times> world" where
  "createDestinationPVC_a e mrd w =
     (case StorageClassName (mrd_Destination mrd) of
        None \<Rightarrow> (Inl (Panic ''nil pointer dereference''), w)
      | Some sc \<Rightarrow>
     (case Capacity (mrd_Destination mrd) of
        None \<Rightarrow> (Inl (Panic ''nil pointer dereference''), w)
      | Some cap \<Rightarrow>
     (let destPVC = \<lparr> pvc_Name = mrd_PVCName mrd, pvc_Namespace = mrd_Namespace mrd,
            pvc_ClusterName = [], pvc_AccessModes = AccessModes (mrd_Destination mrd),
            pvc_StorageClassName = (if sc = [] then None else Some sc),
            pvc_Requests_storage = Some cap \<rparr>
      in
     (case client_Create_pvc e destPVC w of
        (Inl err, w') \<Rightarrow> (Inl (ApiError err), w')
      | (Inr created, w') \<Rightarrow>
          (Inr (created, mrd\<lparr> mrd_Destination := (mrd_Destination mrd)\<lparr>
                   StorageClassName := pvc_StorageClassName created \<rparr> \<rparr>), w')))))"

text \<open>The condition of the wait in \<open>createDestination\<close> (lines 432-452); the variable it
  closes over is \<open>rd\<close>, the object last fetched.\<close>

definition createDestination_cond ::
  "env \<Rightarrow> string \<Rightarrow> string \<Rightarrow> replicationDestination \<Rightarrow> world
     \<Rightarrow> (error + bool) \<times> replicationDestination \<times> world" where
  "createDestination_cond e ns n rd w =
     (case client_Get_rd e ns n w of
        (Inl err, w') \<Rightarrow> (Inl (ApiError err), rd, w')
      | (Inr rd', w') \<Rightarrow>
     (case rd_Status rd' of
        None \<Rightarrow> (Inr False, rd', w')
      | Some st \<Rightarrow>
     (case rds_Rsync st of
        None \<Rightarrow> (Inl (Panic ''nil pointer dereference''), rd', w')
      | Some rsync \<Rightarrow>
          if st_Address rsync = None then (Inr False, rd', w')
          else if st_SSHKeys rsync = None then (Inr False, rd', w')
          else (Inr True, rd', w'))))"

definition emptyReplicationDestination :: replicationDestination where
  "emptyReplicationDestination =
     \<lparr> rd_Name = [], rd_Namespace = [], rd_Rsync = emptyRsyncSpec, rd_Status = None \<rparr>"

text \<open>\<open>createDestination\<close> (lines 405-462); the wait polls every 5 seconds for 2 minutes.\<close>

definition createDestination ::
  "env \<Rightarrow> migrationRelationshipDestination \<Rightarrow> world \<Rightarrow>
     (error + migrationRelationshipDestination) \<times> world" where
  "createDestination e mrd w =
     (let rsyncSpec = emptyRsyncSpec\<lparr>
            CopyMethod := CopyMethod (mrd_Destination mrd),
            DestinationPVC := Some (mrd_PVCName mrd),
            ServiceType := ServiceType (mrd_Destination mrd) \<rparr>;
          rd = \<lparr> rd_Name = mrd_MDName mrd, rd_Namespace = mrd_Namespace mrd,
                 rd_Rsync = rsyncSpec, rd_Status = None \<rparr>
      in
     (case client_Create e (ORD rd) w of
        (Some err, w1) \<Rightarrow> (Inl (ApiError err), w1)
      | (None, w1) \<Rightarrow>
     (case PollImmediate 5 120
             (createDestination_cond e (mrd_Namespace mrd) (mrd_MDName mrd))
             emptyReplicationDestination w1 of
        (Some err, rd', w2) \<Rightarrow> (Inl err, w2)
      | (None, rd', w2) \<Rightarrow>
     (case rd_Status rd' of
        None \<Rightarrow> (Inl (Panic ''nil pointer dereference''), w2)
      | Some st \<Rightarrow>
     (case rds_Rsync st of
        None \<Rightarrow> (Inl (Panic ''nil pointer dereference''), w2)
      | Some rsync \<Rightarrow>
          (Inr (mrd\<lparr> mrd_Destination := (mrd_Destination mrd)\<lparr>
                  Address := st_Address rsync,
                  Port := st_Port rsync,
                  SSHKeys := st_SSHKeys rsync \<rparr> \<rparr>), w2))))))"

text \<open>\<open>migrationCreate.Run\<close> (lines 208-242).\<close>

definition migrationCreate_Run_a :: "env \<Rightarrow> world \<Rightarrow> error option \<times> world" where
  "migrationCreate_Run_a e w =
     (case newmigrationRelationship e of
        Inl err \<Rightarrow> (Some err, w)
      | Inr m \<Rightarrow>
     (case newMigrationRelationshipDestination_a e w of
        (Inl err, w1) \<Rightarrow> (Some err, w1)
      | (Inr (pvc, mrd), w1) \<Rightarrow>
     (case createNamespace_a e mrd w1 of
        (Some err, w2) \<Rightarrow> (Some err, w2)
      | (None, w2) \<Rightarrow>
     (case
        (case pvc of
           None \<Rightarrow>
             (case createDestinationPVC_a e mrd w2 of
                (Inl err, w3) \<Rightarrow> (Inl err, w3)
              | (Inr (created, mrd'), w3) \<Rightarrow> (Inr mrd', w3))
         | Some p \<Rightarrow> (Inr mrd, w2))
      of
        (Inl err, w3) \<Rightarrow> (Some err, w3)
      | (Inr mrd3, w3) \<Rightarrow>
     (case createDestination e mrd3 w3 of
        (Inl err, w4) \<Rightarrow> (Some err, w4)
      | (Inr mrd4, w4) \<Rightarrow>
     (case migrationRelationship_Save_a e
             (m\<lparr> mr_data := (mr_data m)\<lparr> md_Destination := Some mrd4 \<rparr> \<rparr>) w4 of
        (Some err, w5) \<Rightarrow>
          (Some (Wrapf ''unable to save relationship configuration: '' (Some err)), w5)
      | (None, w5) \<Rightarrow> (None, w5)))))))"

section \<open>Creating a migration destination, second version (pvbackup.go, lines 463-762)\<close>

text \<open>\<open>getDestinationPVC\<close> (lines 721-735).\<close>

definition getDestinationPVC_b ::
  "env \<Rightarrow> migrationRelationshipDestination \<Rightarrow> world \<Rightarrow> persistentVolumeClaim option \<times> world" where
  "getDestinationPVC_b e mrd w =
     (case client_Get_pvc e (mrd_Namespace mrd) (mrd_PVCName mrd) w of
        (Inr destPVC, w') \<Rightarrow> (Some destPVC, w')
      | (Inl err, w') \<Rightarrow> (None, w'))"

text \<open>\<open>newMigrationRelationshipDestination\<close> (lines 599-675), in the three blocks of the
  source. A copy method that cannot be fetched defaults to Snapshot, an access mode that
  cannot be fetched or is empty to ReadWriteOnce; a PVC that exists is kept in \<open>mrd.PVC\<close>
  and nothing is read from it.\<close>

text \<open>Lines 602-631: copy method, PVC name, client.\<close>

definition newMRD_b_validate :: "env \<Rightarrow> error + migrationRelationshipDestination" where
  "newMRD_b_validate e =
    (let cm = (case GetString e ''copymethod'' of Inl err \<Rightarrow> ''Snapshot'' | Inr v \<Rightarrow> v) in
    if cm \<noteq> CopyMethodNone \<and> cm \<noteq> CopyMethodClone \<and> cm \<noteq> CopyMethodSnapshot
    then Inl (UnsupportedCopyMethod cm)
    else
    (case GetString e ''pvcname'' of
       Inl err \<Rightarrow> Inl err
     | Inr pvcname \<Rightarrow>
    (case ParseXClusterName pvcname of
       Inl err \<Rightarrow> Inl err
     | Inr xcr \<Rightarrow>
    (let mrd = emptyDestination\<lparr>
           mrd_Destination := emptyRsyncSpec\<lparr> CopyMethod := cm \<rparr>,
           mrd_PVCName := xcr_Name xcr,
           mrd_Namespace := xcr_Namespace xcr \<rparr>
     in
    (case newClient e (mrd_Cluster mrd) of
       Some err \<Rightarrow> Inl err
     | None \<Rightarrow> Inr mrd)))))"

text \<open>Lines 633-658: without a PVC, capacity and access mode come from the flags; there
  is no branch for a PVC that exists.\<close>

definition newMRD_b_volume ::
  "env \<Rightarrow> persistentVolumeClaim option \<Rightarrow> migrationRelationshipDestination
     \<Rightarrow> error + migrationRelationshipDestination" where
  "newMRD_b_volume e pvc mrd =
     (case pvc of
        None \<Rightarrow>
          (case GetString e ''capacity'' of
             Inl err \<Rightarrow> Inl (MissingCapacityErr (Some err))
           | Inr cap \<Rightarrow>
          if cap = [] then Inl (MissingCapacityErr None)
          else
          (let accessMode =
                 (case GetString e ''accessmodes'' of
                    Inl err \<Rightarrow> ''ReadWriteOnce''
                  | Inr am \<Rightarrow> if am = [] then ''ReadWriteOnce'' else am)
           in
          if accessMode \<noteq> ReadWriteOnce \<and> accessMode \<noteq> ReadOnlyMany \<and>
             accessMode \<noteq> ReadWriteMany \<and> accessMode \<noteq> ReadWriteOncePod
          then Inl (UnsupportedAccessMode accessMode)
          else Inr (mrd\<lparr> mrd_Destination := (mrd_Destination mrd)\<lparr>
                  Capacity := Some (Quantity cap),
                  AccessModes := [accessMode] \<rparr> \<rparr>)))
      | Some p \<Rightarrow> Inr mrd)"

text \<open>Lines 660-674: service type.\<close>

definition newMRD_b_service ::
  "env \<Rightarrow> migrationRelationshipDestination \<Rightarrow> error + migrationRelationshipDestination" where
  "newMRD_b_service e mrd =
    (case GetString e ''servicetype'' of
       Inl err \<Rightarrow> Inl (Wrapf ''please provide service type, err = '' (Some err))
     | Inr serviceType \<Rightarrow>
    if serviceType \<noteq> ServiceTypeClusterIP \<and> serviceType \<noteq> ServiceTypeNodePort \<and>
       serviceType \<noteq> ServiceTypeLoadBalancer
    then Inl (UnsupportedServiceType serviceType)
    else
      Inr (mrd\<lparr> mrd_Destination :=
             (mrd_Destination mrd)\<lparr> ServiceType := Some serviceType \<rparr> \<rparr>))"

definition newMigrationRelationshipDestination_b ::
  "env \<Rightarrow> world \<Rightarrow> (error + migrationRelationshipDestination) \<times> world" where
  "newMigrationRelationshipDestination_b e w =
     (case newMRD_b_validate e of
        Inl err \<Rightarrow> (Inl err, w)
      | Inr mrd1 \<Rightarrow>
     (case getDestinationPVC_b e mrd1 w of (pvc, w1) \<Rightarrow>
     (case newMRD_b_volume e pvc (mrd1\<lparr> mrd_PVC := pvc \<rparr>) of
        Inl err \<Rightarrow> (Inl err, w1)
      | Inr mrd2 \<Rightarrow>
     (case newMRD_b_service e mrd2 of
        Inl err \<Rightarrow> (Inl err, w1)
      | Inr mrd3 \<Rightarrow> (Inr mrd3, w1)))))"

text \<open>\<open>createNamespace\<close> (lines 677-694).\<close>

definition createNamespace_b ::
  "env \<Rightarrow> migrationRelationshipDestination \<Rightarrow> world \<Rightarrow> error option \<times> world" where
  "createNamespace_b e mrd w =
     (case client_Create e (ONamespace (mrd_Namespace mrd)) w of
        (Some err, w') \<Rightarrow> if IsAlreadyExists err then (None, w') else (Some (ApiError err), w')
      | (None, w') \<Rightarrow> (None, w'))"

text \<open>\<open>createDestinationPVC\<close> (lines 696-719).\<close>

definition createDestinationPVC_b ::
  "env \<Rightarrow> migrationRelationshipDestination \<Rightarrow> world \<Rightarrow>
     (error + persistentVolumeClaim) \<times> world" where
  "createDestinationPVC_b e mrd w =
     (case Capacity (mrd_Destination mrd) of
        None \<Rightarrow> (Inl (Panic ''nil pointer dereference''), w)
      | Some cap \<Rightarrow>
     (let destPVC = \<lparr> pvc_Name = mrd_PVCName mrd, pvc_Namespace = mrd_Namespace mrd,
            pvc_ClusterName = [], pvc_AccessModes = AccessModes (mrd_Destination mrd),
            pvc_StorageClassName = None, pvc_Requests_storage = Some cap \<rparr>
      in
     (case client_Create_pvc e destPVC w of
        (Inl err, w') \<Rightarrow> (Inl (ApiError err), w')
      | (Inr created, w') \<Rightarrow> (Inr created, w'))))"

text \<open>\<open>CreateDestination\<close> (lines 737-762).\<close>

definition CreateDestination ::
  "env \<Rightarrow> migrationRelationshipDestination \<Rightarrow> world \<Rightarrow> error option \<times> world" where
  "CreateDestination e mrd w =
     (let rsyncSpec = emptyRsyncSpec\<lparr>
            CopyMethod := CopyMethod (mrd_Destination mrd),
            DestinationPVC := Some (mrd_PVCName mrd),
            ServiceType := ServiceType (mrd_Destination mrd) \<rparr>;
          rdName = mrd_Namespace mrd @ ''-'' @ mrd_PVCName mrd @ ''-replication-dest'';
          rd = \<lparr> rd_Name = rdName, rd_Namespace = mrd_Namespace mrd,
                 rd_Rsync = rsyncSpec, rd_Status = None \<rparr>
      in
     (case client_Create e (ORD rd) w of
        (Some err, w1) \<Rightarrow> (Some (ApiError err), w1)
      | (None, w1) \<Rightarrow> (None, w1)))"

text \<open>\<open>migrationCreate.Run\<close> (lines 558-596): the relationship is saved first, and every
  later failure returns nil.\<close>

definition migrationCreate_Run_b :: "env \<Rightarrow> world \<Rightarrow> error option \<times> world" where
  "migrationCreate_Run_b e w =
     (case newmigrationRelationship e of
        Inl err \<Rightarrow> (Some err, w)
      | Inr m \<Rightarrow>
     (case migrationRelationship_Save_b e m w of
        (Some err, w0) \<Rightarrow>
          (Some (Wrapf ''unable to save relationship configuration: '' (Some err)), w0)
      | (None, w0) \<Rightarrow>
     (case newMigrationRelationshipDestination_b e w0 of
        (Inl err, w1) \<Rightarrow> (None, w1)
      | (Inr mrd, w1) \<Rightarrow>
     (case createNamespace_b e mrd w1 of
        (Some err, w2) \<Rightarrow> (None, w2)
      | (None, w2) \<Rightarrow>
     (case
        (case mrd_PVC mrd of
           None \<Rightarrow>
             (case createDestinationPVC_b e mrd w2 of
                (Inl err, w3) \<Rightarrow> (Inl err, w3)
              | (Inr created, w3) \<Rightarrow> (Inr (mrd\<lparr> mrd_PVC := Some created \<rparr>), w3))
         | Some p \<Rightarrow> (Inr mrd, w2))
      of
        (Inl err, w3) \<Rightarrow> (None, w3)
      | (Inr mrd3, w3) \<Rightarrow>
     (case CreateDestination e mrd3 w3 of
        (Some err, w4) \<Rightarrow> (None, w4)
      | (None, w4) \<Rightarrow> (None, w4)))))))"

section \<open>Backup relationships (pvbackup.go, lines 1-104)\<close>

record pvBackupRelationship =
  pr_rel :: relationship
  pr_data :: pvBackupRelationshipData

text \<open>\<open>newPVBackupRelationship\<close> (lines 73-85).\<close>

definition newPVBackupRelationship :: "env \<Rightarrow> error + pvBackupRelationship" where
  "newPVBackupRelationship e =
     (case CreateRelationshipFromCommand e of
        Inl err \<Rightarrow> Inl err
      | Inr r \<Rightarrow> Inr \<lparr> pr_rel = r, pr_data = \<lparr> pd_Version = 1, pd_Source = None \<rparr> \<rparr>)"

text \<open>\<open>pvBackupRelationship.Save\<close> (lines 65-71); \<open>SetData\<close> is not among the source files:
  it stores the data under its key, or fails.\<close>

definition pvBackupRelationship_Save ::
  "env \<Rightarrow> pvBackupRelationship \<Rightarrow> world \<Rightarrow> error option \<times> world" where
  "pvBackupRelationship_Save e pr w =
     (case setdata_err e of
        Some err \<Rightarrow> (Some err, w)
      | None \<Rightarrow> Relationship_Save e (rel_Set ''data'' (VBackup (pr_data pr)) (pr_rel pr)) w)"

section \<open>Creating a backup relationship (unnamed/part_000)\<close>

record resticConfig =
  rc_name :: string
  rc_Viper :: "string \<Rightarrow> confval option"

record pvBackupCreate =
  pc_Cluster :: string
  pc_Namespace :: string
  pc_SourcePVC :: string
  pc_Name :: string
  pc_RSName :: string
  pc_Repository :: string
  pc_schedule :: string
  pc_resticConfig :: resticConfig
  pc_pr :: pvBackupRelationship

text \<open>\<open>parseResticConfig\<close> (lines 147-169).\<close>

definition parseResticConfig :: "env \<Rightarrow> string \<Rightarrow> error + resticConfig" where
  "parseResticConfig e filename =
     (case conf_files e filename of
        NoSuchFile \<Rightarrow> Inl ErrNotExist
      | Unreadable msg \<Rightarrow>
          Inl (Wrapf ''unable to read in config file, '' (Some (ReadConfigError msg)))
      | Config v \<Rightarrow>
          if v ''AWS_ACCESS_KEY_ID'' = None \<or> v ''AWS_SECRET_ACCESS_KEY'' = None \<or>
             v ''RESTIC_REPOSITORY'' = None \<or> v ''RESTIC_PASSWORD'' = None
          then Inl ErrInvalid
          else Inr \<lparr> rc_name = filename, rc_Viper = v \<rparr>)"

text \<open>\<open>parseCronSpec\<close> (lines 171-178, and common_utils.go, lines 80-87): the text goes to
  the cron parser whatever it is.\<close>

definition parseCronSpec :: "env \<Rightarrow> string \<Rightarrow> error + string" where
  "parseCronSpec e cs =
     (case cron_err e cs of Some msg \<Rightarrow> Inl (CronParseError msg) | None \<Rightarrow> Inr cs)"

text \<open>\<open>pvBackupCreate.parseCLI\<close> (lines 97-145). When the repository of the configuration
  is not a string the source returns \<open>err\<close>, which is nil there: the parse ends with
  success and leaves repository and schedule unset.\<close>

definition parseCLI :: "env \<Rightarrow> pvBackupCreate \<Rightarrow> error + pvBackupCreate" where
  "parseCLI e pc =
    (case GetString e ''pvcname'' of
       Inl err \<Rightarrow> Inl (Wrapf ''failed to fetch the pvcname, err = '' (Some err))
     | Inr pvcname \<Rightarrow>
    if pvcname = [] then Inl (Wrapf ''failed to fetch the pvcname, err = '' None)
    else
    (case ParseXClusterName pvcname of
       Inl err \<Rightarrow> Inl (Wrapf ''failed to parse cluster name from pvcname, err = '' (Some err))
     | Inr xcr \<Rightarrow>
    (let pc1 = pc\<lparr> pc_SourcePVC := xcr_Name xcr, pc_Namespace := xcr_Namespace xcr,
                    pc_Cluster := xcr_Cluster xcr \<rparr>
     in
    (case GetString e ''name'' of
       Inl err \<Rightarrow> Inl (Wrapf ''failed to fetch the backup name, err = '' (Some err))
     | Inr backupName \<Rightarrow>
    (let pc2 = pc1\<lparr> pc_Name := backupName, pc_RSName := backupName @ ''-backup-source'' \<rparr>
     in
    (case GetString e ''restic-config'' of
       Inl err \<Rightarrow> Inl (Wrapf ''failed to fetch the restic-config, err = '' (Some err))
     | Inr resticConfigFile \<Rightarrow>
    (case parseResticConfig e resticConfigFile of
       Inl err \<Rightarrow> Inl err
     | Inr rc \<Rightarrow>
    (let pc3 = pc2\<lparr> pc_resticConfig := rc \<rparr> in
    (case rc_Viper rc ''RESTIC_REPOSITORY'' of
       None \<Rightarrow> Inr pc3
     | Some ConfOther \<Rightarrow> Inr pc3
     | Some (ConfString repository) \<Rightarrow>
    (let pc4 = pc3\<lparr> pc_Repository := repository \<rparr> in
    (case GetString e ''cronspec'' of
       Inl err \<Rightarrow> Inl (Wrapf ''failed to fetch the cronspec, err = '' (Some err))
     | Inr cronSpec \<Rightarrow>
    (case parseCronSpec e cronSpec of
       Inl err \<Rightarrow> Inl (Wrapf ''failed to parse the cronspec, err = '' (Some err))
     | Inr cs \<Rightarrow> Inr (pc4\<lparr> pc_schedule := cs \<rparr>)))))))))))))"

definition emptyPVBackupCreate :: "pvBackupRelationship \<Rightarrow> pvBackupCreate" where
  "emptyPVBackupCreate pr = \<lparr> pc_Cluster = [], pc_Namespace = [], pc_SourcePVC = [],
     pc_Name = [], pc_RSName = [], pc_Repository = [], pc_schedule = [],
     pc_resticConfig = \<lparr> rc_name = [], rc_Viper = (\<lambda>k. None) \<rparr>, pc_pr = pr \<rparr>"

text \<open>\<open>newPVBackupCreate\<close> (lines 81-95).\<close>

definition newPVBackupCreate :: "env \<Rightarrow> error + pvBackupCreate" where
  "newPVBackupCreate e =
     (case newPVBackupRelationship e of
        Inl err \<Rightarrow> Inl err
      | Inr mr \<Rightarrow> parseCLI e (emptyPVBackupCreate mr))"

text \<open>The method \<open>pvBackupCreate.newPVBackupRelationship\<close> (lines 221-233).\<close>

definition newPVBackupRelationshipSource :: "pvBackupCreate \<Rightarrow> pvBackupRelationshipSource" where
  "newPVBackupRelationshipSource pc =
     \<lparr> prs_Cluster = pc_Cluster pc, prs_Namespace = pc_Namespace pc,
       prs_PVCName = pc_SourcePVC pc, prs_RSName = pc_RSName pc,
       prs_Repository = pc_Repository pc, prs_Schedule = Some (pc_schedule pc) \<rparr>"

text \<open>A type assertion \<open>.(string)\<close> without the second result panics on any other value.\<close>

definition assert_string :: "confval option \<Rightarrow> string option" where
  "assert_string v = (case v of Some (ConfString s) \<Rightarrow> Some s | _ \<Rightarrow> None)"

text \<open>\<open>pvBackupCreate.ensureSecret\<close> (lines 235-253): every error of the create is
  returned, an object that already exists included.\<close>

definition ensureSecret :: "env \<Rightarrow> pvBackupCreate \<Rightarrow> world \<Rightarrow> error option \<times> world" where
  "ensureSecret e pc w =
     (let v = rc_Viper (pc_resticConfig pc) in
      case (assert_string (v ''AWS_ACCESS_KEY_ID''), assert_string (v ''AWS_SECRET_ACCESS_KEY''),
            assert_string (v ''RESTIC_REPOSITORY''), assert_string (v ''RESTIC_PASSWORD'')) of
        (Some a, Some b, Some c, Some d) \<Rightarrow>
          (case client_Create e (OSecret \<lparr> sec_Name = pc_Name pc, sec_Namespace = pc_Namespace pc,
                  sec_StringData = [(''AWS_ACCESS_KEY_ID'', a), (''AWS_SECRET_ACCESS_KEY'', b),
                    (''RESTIC_REPOSITORY'', c), (''RESTIC_PASSWORD'', d)] \<rparr>) w of
             (Some err, w') \<Rightarrow> (Some (ApiError err), w')
           | (None, w') \<Rightarrow> (None, w'))
      | _ \<Rightarrow> (Some (Panic ''interface conversion''), w))"

text \<open>\<open>pvBackupCreate.ensureReplicationSource\<close> (lines 255-285).\<close>

definition ensureReplicationSource ::
  "env \<Rightarrow> pvBackupCreate \<Rightarrow> world \<Rightarrow> (error + replicationSource) \<times> world" where
  "ensureReplicationSource e pc w =
     (case pd_Source (pr_data (pc_pr pc)) of
        None \<Rightarrow> (Inl (Panic ''nil pointer dereference''), w)
      | Some prs \<Rightarrow>
     (let rs = \<lparr> rs_Name = prs_RSName prs, rs_Namespace = prs_Namespace prs,
            rs_SourcePVC = prs_PVCName prs,
            rs_Trigger = Some \<lparr> trg_Schedule = prs_Schedule prs, trg_Manual = [] \<rparr>,
            rs_Restic = Some \<lparr> restic_Repository = prs_Repository prs,
                               restic_CopyMethod = CopyMethodClone \<rparr>,
            rs_Status = None \<rparr>
      in
     (case client_Create e (ORS rs) w of
        (Some err, w') \<Rightarrow> (Inl (ApiError err), w')
      | (None, w') \<Rightarrow> (Inr rs, w'))))"

text \<open>\<open>pvBackupRelationshipData.getReplicationSource\<close> (lines 314-327).\<close>

definition getReplicationSource ::
  "env \<Rightarrow> pvBackupRelationshipData \<Rightarrow> world \<Rightarrow> (error + replicationSource) \<times> world" where
  "getReplicationSource e prd w =
     (case pd_Source prd of
        None \<Rightarrow> (Inl (Panic ''nil pointer dereference''), w)
      | Some src \<Rightarrow>
     (case client_Get_rs e (prs_Namespace src) (prs_RSName src) w of
        (Inl err, w') \<Rightarrow> (Inl (ApiError err), w')
      | (Inr rs, w') \<Rightarrow> (Inr rs, w')))"

text \<open>The condition of the wait in \<open>waitForRSStatus\<close> (lines 294-306); it closes over \<open>rs\<close>,
  which a failed fetch sets to nil.\<close>

definition waitForRSStatus_cond ::
  "env \<Rightarrow> pvBackupRelationshipData \<Rightarrow> replicationSource option \<Rightarrow> world
     \<Rightarrow> (error + bool) \<times> replicationSource option \<times> world" where
  "waitForRSStatus_cond e prd rs0 w =
     (case getReplicationSource e prd w of
        (Inl err, w') \<Rightarrow> (Inl err, None, w')
      | (Inr rs, w') \<Rightarrow>
          if rs_Status rs = None then (Inr False, Some rs, w')
          else (Inr True, Some rs, w'))"

text \<open>\<open>pvBackupRelationshipData.waitForRSStatus\<close> (lines 287-312).\<close>

definition waitForRSStatus ::
  "env \<Rightarrow> pvBackupRelationshipData \<Rightarrow> world \<Rightarrow> (error + replicationSource option) \<times> world" where
  "waitForRSStatus e prd w =
     (case PollImmediate 5 (defaultRsyncKeyTimeout e) (waitForRSStatus_cond e prd) None w of
        (Some err, rs, w') \<Rightarrow> (Inl (Errorf ''failed to fetch rs status: '' err), w')
      | (None, rs, w') \<Rightarrow> (Inr rs, w'))"

text \<open>\<open>pvBackupCreate.Run\<close> (lines 180-219).\<close>

definition pvBackupCreate_Run :: "env \<Rightarrow> pvBackupCreate \<Rightarrow> world \<Rightarrow> error option \<times> world" where
  "pvBackupCreate_Run e pc w =
     (case newClient e (pc_Cluster pc) of
        Some err \<Rightarrow> (Some err, w)
      | None \<Rightarrow>
     (let pc1 = pc\<lparr> pc_pr := (pc_pr pc)\<lparr> pr_data := (pr_data (pc_pr pc))\<lparr>
                  pd_Source := Some (newPVBackupRelationshipSource pc) \<rparr> \<rparr> \<rparr>
      in
     (case ensureSecret e pc1 w of
        (Some err, w1) \<Rightarrow> (Some (Errorf ''failed to create secrete, '' err), w1)
      | (None, w1) \<Rightarrow>
     (case ensureReplicationSource e pc1 w1 of
        (Inl err, w2) \<Rightarrow> (Some err, w2)
      | (Inr rs, w2) \<Rightarrow>
     (case waitForRSStatus e (pr_data (pc_pr pc1)) w2 of
        (Inl err, w3) \<Rightarrow> (Some err, w3)
      | (Inr rs', w3) \<Rightarrow>
     (case pvBackupRelationship_Save e (pc_pr pc1) w3 of
        (Some err, w4) \<Rightarrow>
          (Some (Wrapf ''unable to save relationship configuration: '' (Some err)), w4)
      | (None, w4) \<Rightarrow>
          (None, w4\<lparr> removed := removed w4 @ [rc_name (pc_resticConfig pc1)] \<rparr>)))))))"

text \<open>\<open>RunE\<close> of \<open>pvBackupCreateCmd\<close> (lines 54-60).\<close>

definition pvBackupCreateCmd_RunE :: "env \<Rightarrow> world \<Rightarrow> error option \<times> world" where
  "pvBackupCreateCmd_RunE e w =
     (case newPVBackupCreate e of
        Inl err \<Rightarrow> (Some err, w)
      | Inr pc \<Rightarrow> pvBackupCreate_Run e pc w)"

section \<open>Shared helpers (common_utils.go)\<close>



text \<open>\<open>createSecret\<close> (lines 47-58).\<close>

definition createSecret :: "env \<Rightarrow> secret \<Rightarrow> world \<Rightarrow> error option \<times> world" where
  "createSecret e sec w =
     (case client_Create e (OSecret sec) w of
        (Some err, w') \<Rightarrow>
          if IsAlreadyExists err then (None, w')
          else (Some (Wrapf ''failed to create secret, '' (Some (ApiError err))), w')
      | (None, w') \<Rightarrow> (None, w'))"

text \<open>\<open>persistentVolumeClaim.checkPVCMountStatus\<close> (lines 107-124). \<open>utils.PodsUsingPVC\<close> is
  not among the source files: its result is the parameter \<open>lookup\<close>.\<close>

record pod =
  pod_Name :: string

definition checkPVCMountStatus ::
  "(persistentVolumeClaim \<Rightarrow> error + pod list) \<Rightarrow> persistentVolumeClaim \<Rightarrow> error option" where
  "checkPVCMountStatus lookup pvc =
     (case lookup pvc of
        Inl err \<Rightarrow> Some (Wrapf ''failed to fetch the pvc affinity, '' (Some err))
      | Inr podsUsing \<Rightarrow>
          if length podsUsing > 0
          then Some (PVCInUse (pvc_Name pvc) (map pod_Name podsUsing))
          else None)"

section \<open>Notions used in the statements\<close>

text \<open>The state after \<open>j\<close> more polls with the call \<open>c\<close> and \<open>d\<close> more seconds.\<close>

definition after_polls :: "world \<Rightarrow> call \<Rightarrow> nat \<Rightarrow> nat \<Rightarrow> world" where
  "after_polls w c j d = w\<lparr> api_calls := api_calls w @ replicate j c, clock := clock w + d \<rparr>"













section \<open>Example invocations\<close>

text \<open>A cluster that holds nothing and accepts every create, a store that accepts every
  save, no flag defined, no file. The cron parser refuses the empty text, as \<open>Parse\<close> of
  \<open>robfig/cron\<close> does, and accepts the rest. The quantities of the examples, \<open>10Gi\<close>
  and \<open>20Gi\<close>, are in canonical form.\<close>

definition cluster0 :: env where
  "cluster0 = \<lparr> flags = (\<lambda>name. None), relationship_err = None,
     newClient_err = (\<lambda>c. None),
     api_get_pvc = (\<lambda>tr ns n. Inl NotFound),
     api_get_rd = (\<lambda>tr ns n. Inl NotFound),
     api_get_rs = (\<lambda>tr ns n. Inl NotFound),
     api_create_pvc = (\<lambda>tr p. Inr p),
     api_create = (\<lambda>tr ob. None),
     setdata_err = None, save_err = None,
     conf_files = (\<lambda>f. NoSuchFile),
     cron_err = (\<lambda>s. if s = [] then Some ''empty spec string'' else None),
     quantity_canonical = (\<lambda>s. if s = ''1024Mi'' then ''1Gi'' else s),
     defaultRsyncKeyTimeout = 300, defaultVolumeSyncTimeout = 300 \<rparr>"








text \<open>\<open>migration create -r r1 --pvcname ns1/vol1 --copymethod Clone --accessmodes
  ReadWriteOnce --servicetype ClusterIP\<close>, no capacity given, and variations of it.\<close>

definition migration_flags :: "string \<Rightarrow> string option" where
  "migration_flags = map_of [(''relationship'', ''r1''), (''copymethod'', ''Clone''),
     (''accessmodes'', ''ReadWriteOnce''), (''capacity'', ''''), (''pvcname'', ''ns1/vol1''),
     (''storageclass'', ''''), (''servicetype'', ''ClusterIP'')]"

definition env_nocap :: env where
  "env_nocap = cluster0\<lparr> flags := migration_flags \<rparr>"

definition env_bogus_service :: env where
  "env_bogus_service = cluster0\<lparr> flags := migration_flags(''servicetype'' := Some ''Bogus'') \<rparr>"

definition env_bogus_copy :: env where
  "env_bogus_copy = cluster0\<lparr> flags := migration_flags(''copymethod'' := Some ''Tar'') \<rparr>"

definition env_10Gi :: env where
  "env_10Gi = cluster0\<lparr> flags := migration_flags(''capacity'' := Some ''10Gi'') \<rparr>"

text \<open>The second version of the command defines no flag \<open>copymethod\<close>.\<close>

definition migration_flags_b :: "string \<Rightarrow> string option" where
  "migration_flags_b = map_of [(''relationship'', ''r1''), (''accessmodes'', ''''),
     (''capacity'', ''''), (''pvcname'', ''ns1/vol1''), (''storageclass'', ''''),
     (''servicetype'', ''ClusterIP'')]"

definition env_b_nocap :: env where
  "env_b_nocap = cluster0\<lparr> flags := migration_flags_b \<rparr>"

text \<open>The PVC \<open>ns1/vol1\<close>, when it exists.\<close>

definition pvc0 :: persistentVolumeClaim where
  "pvc0 = \<lparr> pvc_Name = ''vol1'', pvc_Namespace = ''ns1'', pvc_ClusterName = [],
     pvc_AccessModes = [''ReadWriteMany''], pvc_StorageClassName = Some ''fast'',
     pvc_Requests_storage = Some (Quantity ''20Gi'') \<rparr>"

definition env_b_existing :: env where
  "env_b_existing = cluster0\<lparr> flags := migration_flags_b,
     api_get_pvc := (\<lambda>tr ns n. Inr pvc0) \<rparr>"

text \<open>\<open>backup create -r r1 --name nightly --restic-config restic.yaml --pvcname
  ns1/vol1\<close>: the flag \<open>cronspec\<close> keeps its default, the empty text. The file
  \<open>restic.yaml\<close> holds the four keys.\<close>

definition backup_flags :: "string \<Rightarrow> string option" where
  "backup_flags = map_of [(''relationship'', ''r1''), (''name'', ''nightly''),
     (''restic-config'', ''restic.yaml''), (''pvcname'', ''ns1/vol1''), (''cronspec'', '''')]"

definition restic_conf :: "string \<Rightarrow> confval option" where
  "restic_conf = map_of [(''AWS_ACCESS_KEY_ID'', ConfString ''id''),
     (''AWS_SECRET_ACCESS_KEY'', ConfString ''key''),
     (''RESTIC_REPOSITORY'', ConfString ''s3:bucket''),
     (''RESTIC_PASSWORD'', ConfString ''pw'')]"

definition env_no_cronspec :: env where
  "env_no_cronspec = cluster0\<lparr> flags := backup_flags,
     conf_files := (\<lambda>f. if f = ''restic.yaml'' then Config restic_conf else NoSuchFile) \<rparr>"

text \<open>The same with a schedule, on a cluster where the secret exists already.\<close>

definition env_secret_exists :: env where
  "env_secret_exists = cluster0\<lparr>
     flags := backup_flags(''cronspec'' := Some ''0 2 * * *''),
     conf_files := (\<lambda>f. if f = ''restic.yaml'' then Config restic_conf else NoSuchFile),
     api_create := (\<lambda>tr ob. case ob of OSecret s \<Rightarrow> Some AlreadyExists | _ \<Rightarrow> None) \<rparr>"

definition nightly_secret :: secret where
  "nightly_secret = \<lparr> sec_Name = ''nightly'', sec_Namespace = ''ns1'',
     sec_StringData = [(''AWS_ACCESS_KEY_ID'', ''id''), (''AWS_SECRET_ACCESS_KEY'', ''key''),
       (''RESTIC_REPOSITORY'', ''s3:bucket''), (''RESTIC_PASSWORD'', ''pw'')] \<rparr>"

text \<open>The names of the replication destinations submitted, in the order of the calls.\<close>

fun rd_names :: "call list \<Rightarrow> string list" where
  "rd_names [] = []"
| "rd_names (Create (ORD rd) # cs) = rd_Name rd # rd_names cs"
| "rd_names (c # cs) = rd_names cs"

text \<open>A destination whose address and keys are ready.\<close>

definition rd_ready0 :: replicationDestination where
  "rd_ready0 = \<lparr> rd_Name = ''ns1-vol1-migration-dest'', rd_Namespace = ''ns1'',
     rd_Rsync = emptyRsyncSpec,
     rd_Status = Some \<lparr> rds_Rsync = Some \<lparr> st_Address = Some ''10.0.0.7'',
        st_Port = Some 22, st_SSHKeys = Some ''dest-keys'' \<rparr> \<rparr> \<rparr>"



definition env_ready :: env where
  "env_ready = cluster0\<lparr> flags := migration_flags(''capacity'' := Some ''10Gi''),
     api_get_rd := (\<lambda>tr ns n. Inr rd_ready0) \<rparr>"

definition env_b_10Gi :: env where
  "env_b_10Gi = cluster0\<lparr> flags := migration_flags_b(''capacity'' := Some ''10Gi'') \<rparr>"

text \<open>Two pods that mount the PVC.\<close>

definition pods_web :: "pod list" where
  "pods_web = [\<lparr> pod_Name = ''web-0'' \<rparr>, \<lparr> pod_Name = ''web-1'' \<rparr>]"

text \<open>The lookup of the PVC fails with a timeout.\<close>

definition env_lookup_timeout :: env where
  "env_lookup_timeout = cluster0\<lparr> flags := migration_flags(''capacity'' := Some ''10Gi''),
     api_get_pvc := (\<lambda>tr ns n. Inl (OtherFailure ''timeout'')) \<rparr>"

text \<open>The destination the first version builds from the flags alone.\<close>

definition mrd_from_flags :: migrationRelationshipDestination where
  "mrd_from_flags = \<lparr> mrd_Cluster = [], mrd_Namespace = ''ns1'', mrd_PVCName = ''vol1'',
     mrd_PVC = None, mrd_MDName = ''ns1-vol1-migration-dest'', mrd_SSHKeyName = [],
     mrd_Destination = \<lparr> CopyMethod = ''Clone'', Capacity = Some (Quantity ''10Gi''),
       StorageClassName = Some [], AccessModes = [''ReadWriteOnce''], DestinationPVC = None,
       ServiceType = Some ''ClusterIP'', Address = None, Port = None, SSHKeys = None \<rparr> \<rparr>"

section \<open>Properties\<close>

declare waitLoop.simps [simp del]

subsection \<open>The wait loop\<close>





lemma after_polls_0: "after_polls w c 0 0 = w"
  by (simp add: after_polls_def)



lemma waitLoop_invariant:
  "(\<And>s w r s' w'. cond s w = (r, s', w') \<Longrightarrow> Q w \<Longrightarrow> Q w') \<Longrightarrow>
   (\<And>d w. Q w \<Longrightarrow> Q (sleep d w)) \<Longrightarrow>
   Q w \<Longrightarrow> waitLoop i T t cond s w = (r, s', w') \<Longrightarrow> Q w'"
proof (induction i T t cond s w rule: waitLoop.induct)
  case (1 interval timeout t cond s w)
  note step = "1.prems"(1) and slp = "1.prems"(2)
  obtain x s1 w1 where c: "cond s w = (x, s1, w1)" by (cases "cond s w") auto
  have q1: "Q w1" using step[OF c] "1.prems"(3) by simp
  show ?case
  proof (cases x)
    case (Inl err)
    with c "1.prems"(4) q1 show ?thesis by (subst (asm) waitLoop.simps) simp
  next
    case (Inr b)
    show ?thesis
    proof (cases b)
      case True
      with Inr c "1.prems"(4) q1 show ?thesis by (subst (asm) waitLoop.simps) simp
    next
      case False
      show ?thesis
      proof (cases "interval = 0 \<or> timeout < t + interval")
        case True
        with False Inr c "1.prems"(4) q1 slp show ?thesis
          by (subst (asm) waitLoop.simps) (auto split: if_splits)
      next
        case stay: False
        have run: "waitLoop interval timeout (t + interval) cond s1 (sleep interval w1) = (r, s', w')"
          using stay False Inr c "1.prems"(4) by (subst (asm) waitLoop.simps) simp
        have q2: "Q (sleep interval w1)" using q1 slp by simp
        from False have bF: "b = False" by simp
        show ?thesis
          by (rule "1.IH"[OF c[symmetric] Inr bF refl _ _ step slp q2 run]) (use stay in auto)
      qed
    qed
  qed
qed


subsection \<open>waitForRSStatus\<close>






lemma after_polls_call:
  "(after_polls w c k d)\<lparr> api_calls := api_calls (after_polls w c k d) @ [c] \<rparr> =
     after_polls w c (Suc k) d"
  by (simp add: after_polls_def replicate_append_same)


lemma after_polls_sleep: "sleep i (after_polls w c k d) = after_polls w c k (d + i)"
  by (simp add: after_polls_def sleep_def)



























subsection \<open>newMigrationRelationshipDestination\<close>

lemma getDestinationPVC_a_eq:
  "getDestinationPVC_a e mrd w =
     ((case api_get_pvc e (api_calls w) (mrd_Namespace mrd) (mrd_PVCName mrd) of
         Inl err \<Rightarrow> None | Inr p \<Rightarrow> Some p),
      w\<lparr> api_calls := api_calls w @ [Get KPVC (mrd_Namespace mrd) (mrd_PVCName mrd)] \<rparr>)"
  by (simp add: getDestinationPVC_a_def client_Get_pvc_def split: sum.split)

lemma getDestinationPVC_b_eq:
  "getDestinationPVC_b e mrd w =
     ((case api_get_pvc e (api_calls w) (mrd_Namespace mrd) (mrd_PVCName mrd) of
         Inl err \<Rightarrow> None | Inr p \<Rightarrow> Some p),
      w\<lparr> api_calls := api_calls w @ [Get KPVC (mrd_Namespace mrd) (mrd_PVCName mrd)] \<rparr>)"
  by (simp add: getDestinationPVC_b_def client_Get_pvc_def split: sum.split)

lemma newMRD_a_frame:
  "newMigrationRelationshipDestination_a e w = (r, w') \<Longrightarrow>
     w' = w \<or> (\<exists>ns n. w' = w\<lparr> api_calls := api_calls w @ [Get KPVC ns n] \<rparr>)"
  unfolding newMigrationRelationshipDestination_a_def getDestinationPVC_a_eq
  by (auto split: sum.splits)

lemma newMRD_b_frame:
  "newMigrationRelationshipDestination_b e w = (r, w') \<Longrightarrow>
     w' = w \<or> (\<exists>ns n. w' = w\<lparr> api_calls := api_calls w @ [Get KPVC ns n] \<rparr>)"
  unfolding newMigrationRelationshipDestination_b_def getDestinationPVC_b_eq
  by (auto split: sum.splits)

lemma newMRD_a_validate_copymethod:
  "flags e ''copymethod'' = Some cm \<Longrightarrow>
   cm \<notin> {CopyMethodDirect, CopyMethodClone, CopyMethodSnapshot, CopyMethodNone} \<Longrightarrow>
   newMRD_a_validate e = Inl (UnsupportedCopyMethod cm)"
  by (simp add: newMRD_a_validate_def GetString_def)

lemma newMRD_b_validate_copymethod:
  "flags e ''copymethod'' = Some cm \<Longrightarrow>
   cm \<notin> {CopyMethodDirect, CopyMethodClone, CopyMethodSnapshot, CopyMethodNone} \<Longrightarrow>
   newMRD_b_validate e = Inl (UnsupportedCopyMethod cm)"
  by (simp add: newMRD_b_validate_def GetString_def)

lemma newMRD_a_service_unsupported:
  "flags e ''servicetype'' = Some st \<Longrightarrow>
   st \<notin> {ServiceTypeClusterIP, ServiceTypeNodePort, ServiceTypeLoadBalancer} \<Longrightarrow>
   newMRD_a_service e mrd = Inl (UnsupportedServiceType st)"
  by (simp add: newMRD_a_service_def GetString_def)

lemma newMRD_b_service_unsupported:
  "flags e ''servicetype'' = Some st \<Longrightarrow>
   st \<notin> {ServiceTypeClusterIP, ServiceTypeNodePort, ServiceTypeLoadBalancer} \<Longrightarrow>
   newMRD_b_service e mrd = Inl (UnsupportedServiceType st)"
  by (simp add: newMRD_b_service_def GetString_def)

lemma newMRD_a_bad_service:
  assumes "flags e ''servicetype'' = Some st"
    and "st \<notin> {ServiceTypeClusterIP, ServiceTypeNodePort, ServiceTypeLoadBalancer}"
  shows "\<exists>err w'. newMigrationRelationshipDestination_a e w = (Inl err, w') \<and>
     (w' = w \<or> (\<exists>ns n. w' = w\<lparr> api_calls := api_calls w @ [Get KPVC ns n] \<rparr>))"
  unfolding newMigrationRelationshipDestination_a_def getDestinationPVC_a_eq
  by (auto simp: newMRD_a_service_unsupported[OF assms] split: sum.splits)

lemma newMRD_b_bad_service:
  assumes "flags e ''servicetype'' = Some st"
    and "st \<notin> {ServiceTypeClusterIP, ServiceTypeNodePort, ServiceTypeLoadBalancer}"
  shows "\<exists>err w'. newMigrationRelationshipDestination_b e w = (Inl err, w') \<and>
     (w' = w \<or> (\<exists>ns n. w' = w\<lparr> api_calls := api_calls w @ [Get KPVC ns n] \<rparr>))"
  unfolding newMigrationRelationshipDestination_b_def getDestinationPVC_b_eq
  by (auto simp: newMRD_b_service_unsupported[OF assms] split: sum.splits)

text \<open>Nothing before the service type reads the flag \<open>servicetype\<close>.\<close>

lemma GetString_servicetype:
  "GetString (e\<lparr> flags := (flags e)(''servicetype'' := x) \<rparr>) ''copymethod'' =
     GetString e ''copymethod''"
  "GetString (e\<lparr> flags := (flags e)(''servicetype'' := x) \<rparr>) ''pvcname'' =
     GetString e ''pvcname''"
  "GetString (e\<lparr> flags := (flags e)(''servicetype'' := x) \<rparr>) ''capacity'' =
     GetString e ''capacity''"
  "GetString (e\<lparr> flags := (flags e)(''servicetype'' := x) \<rparr>) ''accessmodes'' =
     GetString e ''accessmodes''"
  "GetString (e\<lparr> flags := (flags e)(''servicetype'' := x) \<rparr>) ''storageclass'' =
     GetString e ''storageclass''"
  "newClient (e\<lparr> flags := f \<rparr>) c = newClient e c"
  by (simp_all add: GetString_def newClient_def)

lemma newMRD_a_validate_servicetype:
  "newMRD_a_validate (e\<lparr> flags := (flags e)(''servicetype'' := x) \<rparr>) = newMRD_a_validate e"
  unfolding newMRD_a_validate_def GetString_servicetype by (rule refl)

lemma newMRD_a_volume_servicetype:
  "newMRD_a_volume (e\<lparr> flags := (flags e)(''servicetype'' := x) \<rparr>) = newMRD_a_volume e"
  unfolding newMRD_a_volume_def GetString_servicetype by (rule refl)

lemma newMRD_b_validate_servicetype:
  "newMRD_b_validate (e\<lparr> flags := (flags e)(''servicetype'' := x) \<rparr>) = newMRD_b_validate e"
  unfolding newMRD_b_validate_def GetString_servicetype by (rule refl)

lemma newMRD_b_volume_servicetype:
  "newMRD_b_volume (e\<lparr> flags := (flags e)(''servicetype'' := x) \<rparr>) = newMRD_b_volume e"
  unfolding newMRD_b_volume_def GetString_servicetype by (rule refl)

lemma newMRD_a_service_decides:
  assumes bad: "st \<notin> {ServiceTypeClusterIP, ServiceTypeNodePort, ServiceTypeLoadBalancer}"
    and ok: "newMigrationRelationshipDestination_a
               (e\<lparr> flags := (flags e)(''servicetype'' := Some v) \<rparr>) w = (Inr r, w')"
  shows "newMigrationRelationshipDestination_a
           (e\<lparr> flags := (flags e)(''servicetype'' := Some st) \<rparr>) w =
         (Inl (UnsupportedServiceType st), w')"
proof -
  have s: "\<And>mrd. newMRD_a_service (e\<lparr> flags := (flags e)(''servicetype'' := Some st) \<rparr>) mrd =
      Inl (UnsupportedServiceType st)"
    using bad by (intro newMRD_a_service_unsupported) simp_all
  show ?thesis
    using ok
    unfolding newMigrationRelationshipDestination_a_def getDestinationPVC_a_eq
      newMRD_a_validate_servicetype newMRD_a_volume_servicetype
    by (auto simp: s split: sum.splits)
qed

lemma newMRD_b_service_decides:
  assumes bad: "st \<notin> {ServiceTypeClusterIP, ServiceTypeNodePort, ServiceTypeLoadBalancer}"
    and ok: "newMigrationRelationshipDestination_b
               (e\<lparr> flags := (flags e)(''servicetype'' := Some v) \<rparr>) w = (Inr r, w')"
  shows "newMigrationRelationshipDestination_b
           (e\<lparr> flags := (flags e)(''servicetype'' := Some st) \<rparr>) w =
         (Inl (UnsupportedServiceType st), w')"
proof -
  have s: "\<And>mrd. newMRD_b_service (e\<lparr> flags := (flags e)(''servicetype'' := Some st) \<rparr>) mrd =
      Inl (UnsupportedServiceType st)"
    using bad by (intro newMRD_b_service_unsupported) simp_all
  show ?thesis
    using ok
    unfolding newMigrationRelationshipDestination_b_def getDestinationPVC_b_eq
      newMRD_b_validate_servicetype newMRD_b_volume_servicetype
    by (auto simp: s split: sum.splits)
qed

lemma newMRD_a_earlier_check:
  assumes v: "v \<in> {ServiceTypeClusterIP, ServiceTypeLoadBalancer}"
    and fails: "newMigrationRelationshipDestination_a
               (e\<lparr> flags := (flags e)(''servicetype'' := Some v) \<rparr>) w = (Inl err, w')"
  shows "newMigrationRelationshipDestination_a
           (e\<lparr> flags := (flags e)(''servicetype'' := Some x) \<rparr>) w = (Inl err, w')"
proof -
  have s: "\<And>mrd x. newMRD_a_service (e\<lparr> flags := (flags e)(''servicetype'' := Some v) \<rparr>) mrd \<noteq>
      Inl x"
    using v by (auto simp: newMRD_a_service_def GetString_def)
  show ?thesis
    using fails s
    unfolding newMigrationRelationshipDestination_a_def getDestinationPVC_a_eq
      newMRD_a_validate_servicetype newMRD_a_volume_servicetype
    by (auto split: sum.splits)
qed

lemma newMRD_b_earlier_check:
  assumes v: "v \<in> {ServiceTypeClusterIP, ServiceTypeNodePort, ServiceTypeLoadBalancer}"
    and fails: "newMigrationRelationshipDestination_b
               (e\<lparr> flags := (flags e)(''servicetype'' := Some v) \<rparr>) w = (Inl err, w')"
  shows "newMigrationRelationshipDestination_b
           (e\<lparr> flags := (flags e)(''servicetype'' := Some x) \<rparr>) w = (Inl err, w')"
proof -
  have s: "\<And>mrd x. newMRD_b_service (e\<lparr> flags := (flags e)(''servicetype'' := Some v) \<rparr>) mrd \<noteq>
      Inl x"
    using v by (auto simp: newMRD_b_service_def GetString_def)
  show ?thesis
    using fails s
    unfolding newMigrationRelationshipDestination_b_def getDestinationPVC_b_eq
      newMRD_b_validate_servicetype newMRD_b_volume_servicetype
    by (auto split: sum.splits)
qed

lemma Run_a_fails_with_destination:
  "newMigrationRelationshipDestination_a e w = (Inl err, w') \<Longrightarrow>
   migrationCreate_Run_a e w =
     (case relationship_err e of None \<Rightarrow> (Some err, w') | Some err0 \<Rightarrow> (Some err0, w))"
  by (simp add: migrationCreate_Run_a_def newmigrationRelationship_def
      CreateRelationshipFromCommand_def split: option.split)

lemmas migration_examples = migration_flags_def env_nocap_def env_bogus_service_def
  env_bogus_copy_def env_10Gi_def cluster0_def world0_def

lemmas newMRD_a_eval = newMigrationRelationshipDestination_a_def newMRD_a_validate_def
  newMRD_a_volume_def newMRD_a_service_def getDestinationPVC_a_eq GetString_def
  ParseXClusterName_def newClient_def emptyDestination_def emptyRsyncSpec_def api_consts

lemmas newMRD_b_eval = newMigrationRelationshipDestination_b_def newMRD_b_validate_def
  newMRD_b_volume_def newMRD_b_service_def getDestinationPVC_b_eq GetString_def
  ParseXClusterName_def newClient_def emptyDestination_def emptyRsyncSpec_def api_consts

lemma parse_ns1_vol1:
  "ParseXClusterName ''ns1/vol1'' =
     Inr \<lparr> xcr_Cluster = [], xcr_Namespace = ''ns1'', xcr_Name = ''vol1'' \<rparr>"
  by (simp add: ParseXClusterName_def)

text \<open>Claim C2 as stated fails: with the service type \<open>Bogus\<close>, no PVC and no capacity,
  the error is the missing capacity, not an unsupported option.\<close>

theorem C2_counterexample:
  "flags env_bogus_service ''servicetype'' = Some ''Bogus'' \<and>
   ''Bogus'' \<notin> {ServiceTypeClusterIP, ServiceTypeNodePort, ServiceTypeLoadBalancer} \<and>
   newMigrationRelationshipDestination_a env_bogus_service world0 =
     (Inl (MissingCapacity ''vol1''), world0\<lparr> api_calls := [Get KPVC ''ns1'' ''vol1''] \<rparr>) \<and>
   \<not> is_unsupported_option (MissingCapacity ''vol1'')"
  by (simp add: migration_examples newMRD_a_eval)

text \<open>Claim C2, as amended. A copy method outside Direct, Clone, Snapshot and None is
  refused with the unsupported-copy-method error before any call to the cluster. A service
  type outside ClusterIP, NodePort and LoadBalancer makes
  \<open>newMigrationRelationshipDestination\<close> fail with no mutating call made: when the same
  invocation with a service type the version supports goes through, the error is the
  unsupported service type; when it fails, the error and the state are those of that
  failure, the one of an earlier check. A run of the first version returns the error of
  \<open>newMigrationRelationshipDestination\<close>, with no mutating call made.\<close>

theorem C2_unsupported_options:
  "(flags e ''copymethod'' = Some cm \<and>
    cm \<notin> {CopyMethodDirect, CopyMethodClone, CopyMethodSnapshot, CopyMethodNone} \<longrightarrow>
      newMigrationRelationshipDestination_a e w = (Inl (UnsupportedCopyMethod cm), w) \<and>
      newMigrationRelationshipDestination_b e w = (Inl (UnsupportedCopyMethod cm), w) \<and>
      (\<exists>err. migrationCreate_Run_a e w = (Some err, w))) \<and>
   (flags e ''servicetype'' = Some st \<and>
    st \<notin> {ServiceTypeClusterIP, ServiceTypeNodePort, ServiceTypeLoadBalancer} \<longrightarrow>
      (\<exists>err w'. newMigrationRelationshipDestination_a e w = (Inl err, w') \<and>
         (w' = w \<or> (\<exists>ns n. w' = w\<lparr> api_calls := api_calls w @ [Get KPVC ns n] \<rparr>))) \<and>
      (\<exists>err w'. newMigrationRelationshipDestination_b e w = (Inl err, w') \<and>
         (w' = w \<or> (\<exists>ns n. w' = w\<lparr> api_calls := api_calls w @ [Get KPVC ns n] \<rparr>))) \<and>
      (\<exists>err w'. migrationCreate_Run_a e w = (Some err, w') \<and>
         (w' = w \<or> (\<exists>ns n. w' = w\<lparr> api_calls := api_calls w @ [Get KPVC ns n] \<rparr>)))) \<and>
   (st \<notin> {ServiceTypeClusterIP, ServiceTypeNodePort, ServiceTypeLoadBalancer} \<and>
    \<not> isl (fst (newMigrationRelationshipDestination_a
                  (e\<lparr> flags := (flags e)(''servicetype'' := Some v) \<rparr>) w)) \<longrightarrow>
      newMigrationRelationshipDestination_a
          (e\<lparr> flags := (flags e)(''servicetype'' := Some st) \<rparr>) w =
        (Inl (UnsupportedServiceType st),
         snd (newMigrationRelationshipDestination_a
                (e\<lparr> flags := (flags e)(''servicetype'' := Some v) \<rparr>) w))) \<and>
   (st \<notin> {ServiceTypeClusterIP, ServiceTypeNodePort, ServiceTypeLoadBalancer} \<and>
    \<not> isl (fst (newMigrationRelationshipDestination_b
                  (e\<lparr> flags := (flags e)(''servicetype'' := Some v) \<rparr>) w)) \<longrightarrow>
      newMigrationRelationshipDestination_b
          (e\<lparr> flags := (flags e)(''servicetype'' := Some st) \<rparr>) w =
        (Inl (UnsupportedServiceType st),
         snd (newMigrationRelationshipDestination_b
                (e\<lparr> flags := (flags e)(''servicetype'' := Some v) \<rparr>) w))) \<and>
   (st \<notin> {ServiceTypeClusterIP, ServiceTypeNodePort, ServiceTypeLoadBalancer} \<and>
    v \<in> {ServiceTypeClusterIP, ServiceTypeLoadBalancer} \<and>
    newMigrationRelationshipDestination_a
        (e\<lparr> flags := (flags e)(''servicetype'' := Some v) \<rparr>) w = (Inl err, w1) \<longrightarrow>
      newMigrationRelationshipDestination_a
          (e\<lparr> flags := (flags e)(''servicetype'' := Some st) \<rparr>) w = (Inl err, w1)) \<and>
   (st \<notin> {ServiceTypeClusterIP, ServiceTypeNodePort, ServiceTypeLoadBalancer} \<and>
    v \<in> {ServiceTypeClusterIP, ServiceTypeNodePort, ServiceTypeLoadBalancer} \<and>
    newMigrationRelationshipDestination_b
        (e\<lparr> flags := (flags e)(''servicetype'' := Some v) \<rparr>) w = (Inl err, w1) \<longrightarrow>
      newMigrationRelationshipDestination_b
          (e\<lparr> flags := (flags e)(''servicetype'' := Some st) \<rparr>) w = (Inl err, w1)) \<and>
   (relationship_err e = None \<and>
    newMigrationRelationshipDestination_a e w = (Inl err, w1) \<longrightarrow>
      migrationCreate_Run_a e w = (Some err, w1))"
proof (intro conjI impI)
  assume h: "flags e ''copymethod'' = Some cm \<and>
    cm \<notin> {CopyMethodDirect, CopyMethodClone, CopyMethodSnapshot, CopyMethodNone}"
  show a: "newMigrationRelationshipDestination_a e w = (Inl (UnsupportedCopyMethod cm), w)"
    using newMRD_a_validate_copymethod[OF conjunct1[OF h] conjunct2[OF h]]
    by (simp add: newMigrationRelationshipDestination_a_def)
  show "newMigrationRelationshipDestination_b e w = (Inl (UnsupportedCopyMethod cm), w)"
    using newMRD_b_validate_copymethod[OF conjunct1[OF h] conjunct2[OF h]]
    by (simp add: newMigrationRelationshipDestination_b_def)
  show "\<exists>err. migrationCreate_Run_a e w = (Some err, w)"
    using Run_a_fails_with_destination[OF a] by (auto split: option.splits)
next
  assume h: "flags e ''servicetype'' = Some st \<and>
    st \<notin> {ServiceTypeClusterIP, ServiceTypeNodePort, ServiceTypeLoadBalancer}"
  note a = newMRD_a_bad_service[OF conjunct1[OF h] conjunct2[OF h], of w]
  show "\<exists>err w'. newMigrationRelationshipDestination_a e w = (Inl err, w') \<and>
         (w' = w \<or> (\<exists>ns n. w' = w\<lparr> api_calls := api_calls w @ [Get KPVC ns n] \<rparr>))"
    by (rule a)
  show "\<exists>err w'. newMigrationRelationshipDestination_b e w = (Inl err, w') \<and>
         (w' = w \<or> (\<exists>ns n. w' = w\<lparr> api_calls := api_calls w @ [Get KPVC ns n] \<rparr>))"
    by (rule newMRD_b_bad_service[OF conjunct1[OF h] conjunct2[OF h]])
  from a obtain err w' where r: "newMigrationRelationshipDestination_a e w = (Inl err, w')"
    and f: "w' = w \<or> (\<exists>ns n. w' = w\<lparr> api_calls := api_calls w @ [Get KPVC ns n] \<rparr>)"
    by blast
  from Run_a_fails_with_destination[OF r] f
  show "\<exists>err w'. migrationCreate_Run_a e w = (Some err, w') \<and>
         (w' = w \<or> (\<exists>ns n. w' = w\<lparr> api_calls := api_calls w @ [Get KPVC ns n] \<rparr>))"
    by (cases "relationship_err e") auto
next
  assume h: "st \<notin> {ServiceTypeClusterIP, ServiceTypeNodePort, ServiceTypeLoadBalancer} \<and>
    \<not> isl (fst (newMigrationRelationshipDestination_a
                  (e\<lparr> flags := (flags e)(''servicetype'' := Some v) \<rparr>) w))"
  let ?ok = "newMigrationRelationshipDestination_a
                  (e\<lparr> flags := (flags e)(''servicetype'' := Some v) \<rparr>) w"
  from h obtain r where "?ok = (Inr r, snd ?ok)"
    by (cases ?ok; cases "fst ?ok") auto
  from newMRD_a_service_decides[OF conjunct1[OF h] this]
  show "newMigrationRelationshipDestination_a
          (e\<lparr> flags := (flags e)(''servicetype'' := Some st) \<rparr>) w =
        (Inl (UnsupportedServiceType st), snd ?ok)" .
next
  assume h: "st \<notin> {ServiceTypeClusterIP, ServiceTypeNodePort, ServiceTypeLoadBalancer} \<and>
    \<not> isl (fst (newMigrationRelationshipDestination_b
                  (e\<lparr> flags := (flags e)(''servicetype'' := Some v) \<rparr>) w))"
  let ?ok = "newMigrationRelationshipDestination_b
                  (e\<lparr> flags := (flags e)(''servicetype'' := Some v) \<rparr>) w"
  from h obtain r where "?ok = (Inr r, snd ?ok)"
    by (cases ?ok; cases "fst ?ok") auto
  from newMRD_b_service_decides[OF conjunct1[OF h] this]
  show "newMigrationRelationshipDestination_b
          (e\<lparr> flags := (flags e)(''servicetype'' := Some st) \<rparr>) w =
        (Inl (UnsupportedServiceType st), snd ?ok)" .
next
  assume h: "st \<notin> {ServiceTypeClusterIP, ServiceTypeNodePort, ServiceTypeLoadBalancer} \<and>
    v \<in> {ServiceTypeClusterIP, ServiceTypeLoadBalancer} \<and>
    newMigrationRelationshipDestination_a
        (e\<lparr> flags := (flags e)(''servicetype'' := Some v) \<rparr>) w = (Inl err, w1)"
  show "newMigrationRelationshipDestination_a
          (e\<lparr> flags := (flags e)(''servicetype'' := Some st) \<rparr>) w = (Inl err, w1)"
    by (rule newMRD_a_earlier_check[OF conjunct1[OF conjunct2[OF h]] conjunct2[OF conjunct2[OF h]]])
next
  assume h: "st \<notin> {ServiceTypeClusterIP, ServiceTypeNodePort, ServiceTypeLoadBalancer} \<and>
    v \<in> {ServiceTypeClusterIP, ServiceTypeNodePort, ServiceTypeLoadBalancer} \<and>
    newMigrationRelationshipDestination_b
        (e\<lparr> flags := (flags e)(''servicetype'' := Some v) \<rparr>) w = (Inl err, w1)"
  show "newMigrationRelationshipDestination_b
          (e\<lparr> flags := (flags e)(''servicetype'' := Some st) \<rparr>) w = (Inl err, w1)"
    by (rule newMRD_b_earlier_check[OF conjunct1[OF conjunct2[OF h]] conjunct2[OF conjunct2[OF h]]])
next
  assume h: "relationship_err e = None \<and>
    newMigrationRelationshipDestination_a e w = (Inl err, w1)"
  show "migrationCreate_Run_a e w = (Some err, w1)"
    using Run_a_fails_with_destination[OF conjunct2[OF h]] conjunct1[OF h] by simp
qed

text \<open>Claim C2 on runs with the copy method \<open>Tar\<close>, and with the service type \<open>Bogus\<close>
  with and without a capacity.\<close>

theorem C2_unsupported_options_witness:
  "newMigrationRelationshipDestination_a env_bogus_copy world0 =
     (Inl (UnsupportedCopyMethod ''Tar''), world0) \<and>
   newMigrationRelationshipDestination_b env_bogus_copy world0 =
     (Inl (UnsupportedCopyMethod ''Tar''), world0) \<and>
   (\<exists>err w'. migrationCreate_Run_a env_bogus_service world0 = (Some err, w') \<and>
      (w' = world0 \<or> (\<exists>ns n. w' = world0\<lparr> api_calls := api_calls world0 @ [Get KPVC ns n] \<rparr>))) \<and>
   newMigrationRelationshipDestination_a
       (env_10Gi\<lparr> flags := (flags env_10Gi)(''servicetype'' := Some ''Bogus'') \<rparr>) world0 =
     (Inl (UnsupportedServiceType ''Bogus''), world0\<lparr> api_calls := [Get KPVC ''ns1'' ''vol1''] \<rparr>) \<and>
   newMigrationRelationshipDestination_b
       (env_10Gi\<lparr> flags := (flags env_10Gi)(''servicetype'' := Some ''Bogus'') \<rparr>) world0 =
     (Inl (UnsupportedServiceType ''Bogus''), world0\<lparr> api_calls := [Get KPVC ''ns1'' ''vol1''] \<rparr>) \<and>
   newMigrationRelationshipDestination_a
       (env_nocap\<lparr> flags := (flags env_nocap)(''servicetype'' := Some ''Bogus'') \<rparr>) world0 =
     (Inl (MissingCapacity ''vol1''), world0\<lparr> api_calls := [Get KPVC ''ns1'' ''vol1''] \<rparr>) \<and>
   newMigrationRelationshipDestination_b
       (env_nocap\<lparr> flags := (flags env_nocap)(''servicetype'' := Some ''Bogus'') \<rparr>) world0 =
     (Inl (MissingCapacityErr None), world0\<lparr> api_calls := [Get KPVC ''ns1'' ''vol1''] \<rparr>) \<and>
   migrationCreate_Run_a env_bogus_service world0 =
     (Some (MissingCapacity ''vol1''), world0\<lparr> api_calls := [Get KPVC ''ns1'' ''vol1''] \<rparr>)"
proof -
  have cm: "flags env_bogus_copy ''copymethod'' = Some ''Tar'' \<and>
      ''Tar'' \<notin> {CopyMethodDirect, CopyMethodClone, CopyMethodSnapshot, CopyMethodNone}"
    by (simp add: migration_examples api_consts)
  have st: "flags env_bogus_service ''servicetype'' = Some ''Bogus'' \<and>
      ''Bogus'' \<notin> {ServiceTypeClusterIP, ServiceTypeNodePort, ServiceTypeLoadBalancer}"
    by (simp add: migration_examples api_consts)
  have v: "''ClusterIP'' \<in> {ServiceTypeClusterIP, ServiceTypeLoadBalancer} \<and>
      ''ClusterIP'' \<in> {ServiceTypeClusterIP, ServiceTypeNodePort, ServiceTypeLoadBalancer}"
    by (simp add: api_consts)
  have oka: "''Bogus'' \<notin> {ServiceTypeClusterIP, ServiceTypeNodePort, ServiceTypeLoadBalancer} \<and>
      \<not> isl (fst (newMigrationRelationshipDestination_a
         (env_10Gi\<lparr> flags := (flags env_10Gi)(''servicetype'' := Some ''ClusterIP'') \<rparr>) world0))"
    by (simp add: migration_examples newMRD_a_eval)
  have okb: "''Bogus'' \<notin> {ServiceTypeClusterIP, ServiceTypeNodePort, ServiceTypeLoadBalancer} \<and>
      \<not> isl (fst (newMigrationRelationshipDestination_b
         (env_10Gi\<lparr> flags := (flags env_10Gi)(''servicetype'' := Some ''ClusterIP'') \<rparr>) world0))"
    by (simp add: migration_examples newMRD_b_eval)
  have wa: "snd (newMigrationRelationshipDestination_a
         (env_10Gi\<lparr> flags := (flags env_10Gi)(''servicetype'' := Some ''ClusterIP'') \<rparr>) world0) =
       world0\<lparr> api_calls := [Get KPVC ''ns1'' ''vol1''] \<rparr>"
    by (simp add: migration_examples newMRD_a_eval)
  have wb: "snd (newMigrationRelationshipDestination_b
         (env_10Gi\<lparr> flags := (flags env_10Gi)(''servicetype'' := Some ''ClusterIP'') \<rparr>) world0) =
       world0\<lparr> api_calls := [Get KPVC ''ns1'' ''vol1''] \<rparr>"
    by (simp add: migration_examples newMRD_b_eval)
  have fa: "newMigrationRelationshipDestination_a
         (env_nocap\<lparr> flags := (flags env_nocap)(''servicetype'' := Some ''ClusterIP'') \<rparr>) world0 =
       (Inl (MissingCapacity ''vol1''), world0\<lparr> api_calls := [Get KPVC ''ns1'' ''vol1''] \<rparr>)"
    by (simp add: migration_examples newMRD_a_eval)
  have fb: "newMigrationRelationshipDestination_b
         (env_nocap\<lparr> flags := (flags env_nocap)(''servicetype'' := Some ''ClusterIP'') \<rparr>) world0 =
       (Inl (MissingCapacityErr None), world0\<lparr> api_calls := [Get KPVC ''ns1'' ''vol1''] \<rparr>)"
    by (simp add: migration_examples newMRD_b_eval)
  have ra: "relationship_err env_bogus_service = None \<and>
      newMigrationRelationshipDestination_a env_bogus_service world0 =
       (Inl (MissingCapacity ''vol1''), world0\<lparr> api_calls := [Get KPVC ''ns1'' ''vol1''] \<rparr>)"
    by (simp add: migration_examples newMRD_a_eval)
  have p1: "newMigrationRelationshipDestination_a env_bogus_copy world0 =
     (Inl (UnsupportedCopyMethod ''Tar''), world0) \<and>
   newMigrationRelationshipDestination_b env_bogus_copy world0 =
     (Inl (UnsupportedCopyMethod ''Tar''), world0)"
    using C2_unsupported_options[where e = env_bogus_copy and cm = "''Tar''" and w = world0
        and st = "''Bogus''" and v = "''ClusterIP''"] cm
    by simp
  have p2: "(\<exists>err w'. migrationCreate_Run_a env_bogus_service world0 = (Some err, w') \<and>
      (w' = world0 \<or> (\<exists>ns n. w' = world0\<lparr> api_calls := api_calls world0 @ [Get KPVC ns n] \<rparr>)))"
    using C2_unsupported_options[where e = env_bogus_service and st = "''Bogus''" and w = world0
        and cm = "''Tar''" and v = "''ClusterIP''"] st
    by simp
  have p3: "newMigrationRelationshipDestination_a
       (env_10Gi\<lparr> flags := (flags env_10Gi)(''servicetype'' := Some ''Bogus'') \<rparr>) world0 =
     (Inl (UnsupportedServiceType ''Bogus''), world0\<lparr> api_calls := [Get KPVC ''ns1'' ''vol1''] \<rparr>) \<and>
   newMigrationRelationshipDestination_b
       (env_10Gi\<lparr> flags := (flags env_10Gi)(''servicetype'' := Some ''Bogus'') \<rparr>) world0 =
     (Inl (UnsupportedServiceType ''Bogus''), world0\<lparr> api_calls := [Get KPVC ''ns1'' ''vol1''] \<rparr>)"
    using C2_unsupported_options[where e = env_10Gi and st = "''Bogus''" and w = world0
        and cm = "''Tar''" and v = "''ClusterIP''"] oka okb wa wb
    by simp
  have p4: "newMigrationRelationshipDestination_a
       (env_nocap\<lparr> flags := (flags env_nocap)(''servicetype'' := Some ''Bogus'') \<rparr>) world0 =
     (Inl (MissingCapacity ''vol1''), world0\<lparr> api_calls := [Get KPVC ''ns1'' ''vol1''] \<rparr>)"
    using C2_unsupported_options[where e = env_nocap and st = "''Bogus''" and w = world0
        and v = "''ClusterIP''" and err = "MissingCapacity ''vol1''"
        and ?w1.0 = "world0\<lparr> api_calls := [Get KPVC ''ns1'' ''vol1''] \<rparr>"] st v fa
    by simp
  have p5: "newMigrationRelationshipDestination_b
       (env_nocap\<lparr> flags := (flags env_nocap)(''servicetype'' := Some ''Bogus'') \<rparr>) world0 =
     (Inl (MissingCapacityErr None), world0\<lparr> api_calls := [Get KPVC ''ns1'' ''vol1''] \<rparr>)"
    using C2_unsupported_options[where e = env_nocap and st = "''Bogus''" and w = world0
        and v = "''ClusterIP''" and err = "MissingCapacityErr None"
        and ?w1.0 = "world0\<lparr> api_calls := [Get KPVC ''ns1'' ''vol1''] \<rparr>"] st v fb
    by simp
  have p6: "migrationCreate_Run_a env_bogus_service world0 =
     (Some (MissingCapacity ''vol1''), world0\<lparr> api_calls := [Get KPVC ''ns1'' ''vol1''] \<rparr>)"
    using C2_unsupported_options[where e = env_bogus_service and w = world0 and err = "MissingCapacity ''vol1''"
        and ?w1.0 = "world0\<lparr> api_calls := [Get KPVC ''ns1'' ''vol1''] \<rparr>"] ra
    by simp
  from p1 p2 p3 p4 p5 p6 show ?thesis by simp
qed

subsection \<open>Missing capacity\<close>

lemma newMRD_a_validate_ok:
  assumes "flags e ''copymethod'' = Some cm"
    and "cm \<in> {CopyMethodDirect, CopyMethodClone, CopyMethodSnapshot}"
    and "flags e ''pvcname'' = Some pn" and "ParseXClusterName pn = Inr xcr"
    and "newClient_err e [] = None"
  shows "newMRD_a_validate e = Inr (emptyDestination\<lparr>
           mrd_Destination := emptyRsyncSpec\<lparr> CopyMethod := cm \<rparr>,
           mrd_PVCName := xcr_Name xcr, mrd_Namespace := xcr_Namespace xcr \<rparr>)"
  using assms
  by (auto simp: newMRD_a_validate_def GetString_def newClient_def emptyDestination_def)

lemma newMRD_b_validate_ok:
  assumes "flags e ''copymethod'' = None \<and> cm = ''Snapshot'' \<or> flags e ''copymethod'' = Some cm"
    and "cm \<in> {CopyMethodNone, CopyMethodClone, CopyMethodSnapshot}"
    and "flags e ''pvcname'' = Some pn" and "ParseXClusterName pn = Inr xcr"
    and "newClient_err e [] = None"
  shows "newMRD_b_validate e = Inr (emptyDestination\<lparr>
           mrd_Destination := emptyRsyncSpec\<lparr> CopyMethod := cm \<rparr>,
           mrd_PVCName := xcr_Name xcr, mrd_Namespace := xcr_Namespace xcr \<rparr>)"
  using assms
  by (auto simp: newMRD_b_validate_def GetString_def newClient_def emptyDestination_def)

lemma newMRD_a_missing_capacity:
  assumes v: "flags e ''copymethod'' = Some cm"
      "cm \<in> {CopyMethodDirect, CopyMethodClone, CopyMethodSnapshot}"
      "flags e ''pvcname'' = Some pn" "ParseXClusterName pn = Inr xcr"
      "newClient_err e [] = None"
    and get: "api_get_pvc e (api_calls w) (xcr_Namespace xcr) (xcr_Name xcr) = Inl kerr"
    and cap: "flags e ''capacity'' = None \<or> flags e ''capacity'' = Some []"
  shows "newMigrationRelationshipDestination_a e w =
     (Inl (MissingCapacity (xcr_Name xcr)),
      w\<lparr> api_calls := api_calls w @ [Get KPVC (xcr_Namespace xcr) (xcr_Name xcr)] \<rparr>)"
  using get cap
  by (auto simp: newMigrationRelationshipDestination_a_def newMRD_a_validate_ok[OF v]
      getDestinationPVC_a_eq newMRD_a_volume_def GetString_def)

lemma newMRD_b_missing_capacity:
  assumes v: "flags e ''copymethod'' = None \<and> cm = ''Snapshot'' \<or> flags e ''copymethod'' = Some cm"
      "cm \<in> {CopyMethodNone, CopyMethodClone, CopyMethodSnapshot}"
      "flags e ''pvcname'' = Some pn" "ParseXClusterName pn = Inr xcr"
      "newClient_err e [] = None"
    and get: "api_get_pvc e (api_calls w) (xcr_Namespace xcr) (xcr_Name xcr) = Inl kerr"
    and cap: "flags e ''capacity'' = None \<or> flags e ''capacity'' = Some []"
  shows "newMigrationRelationshipDestination_b e w =
     (Inl (MissingCapacityErr
             (case flags e ''capacity'' of None \<Rightarrow> Some (FlagNotDefined ''capacity'')
              | Some c \<Rightarrow> None)),
      w\<lparr> api_calls := api_calls w @ [Get KPVC (xcr_Namespace xcr) (xcr_Name xcr)] \<rparr>)"
  using get cap
  by (auto simp: newMigrationRelationshipDestination_b_def newMRD_b_validate_ok[OF v]
      getDestinationPVC_b_eq newMRD_b_volume_def GetString_def)

text \<open>Claim C5 as stated fails: the missing capacity is reported after a call to the
  cluster, the \<open>Get\<close> that looks the PVC up.\<close>

theorem C5_counterexample:
  "api_get_pvc env_nocap [] ''ns1'' ''vol1'' = Inl NotFound \<and>
   flags env_nocap ''capacity'' = Some [] \<and>
   newMigrationRelationshipDestination_a env_nocap world0 =
     (Inl (MissingCapacity ''vol1''), world0\<lparr> api_calls := [Get KPVC ''ns1'' ''vol1''] \<rparr>) \<and>
   api_calls world0 = []"
  by (simp add: migration_examples newMRD_a_eval)

text \<open>Claim C5, as amended. When the lookup finds no PVC of the requested namespace and
  name and no capacity is given, \<open>newMigrationRelationshipDestination\<close> fails with the
  missing-capacity error after that one \<open>Get\<close> and before any mutating call; the run of
  the first version returns the error, with nothing created and nothing saved.\<close>

theorem C5_missing_capacity:
  "(flags e ''copymethod'' = Some cm \<and>
    cm \<in> {CopyMethodDirect, CopyMethodClone, CopyMethodSnapshot} \<and>
    flags e ''pvcname'' = Some pn \<and> ParseXClusterName pn = Inr xcr \<and>
    newClient_err e [] = None \<and>
    api_get_pvc e (api_calls w) (xcr_Namespace xcr) (xcr_Name xcr) = Inl kerr \<and>
    (flags e ''capacity'' = None \<or> flags e ''capacity'' = Some []) \<longrightarrow>
      newMigrationRelationshipDestination_a e w =
        (Inl (MissingCapacity (xcr_Name xcr)),
         w\<lparr> api_calls := api_calls w @ [Get KPVC (xcr_Namespace xcr) (xcr_Name xcr)] \<rparr>) \<and>
      (relationship_err e = None \<longrightarrow>
         migrationCreate_Run_a e w =
           (Some (MissingCapacity (xcr_Name xcr)),
            w\<lparr> api_calls := api_calls w @ [Get KPVC (xcr_Namespace xcr) (xcr_Name xcr)] \<rparr>))) \<and>
   ((flags e ''copymethod'' = None \<and> cm' = ''Snapshot'' \<or> flags e ''copymethod'' = Some cm') \<and>
    cm' \<in> {CopyMethodNone, CopyMethodClone, CopyMethodSnapshot} \<and>
    flags e ''pvcname'' = Some pn \<and> ParseXClusterName pn = Inr xcr \<and>
    newClient_err e [] = None \<and>
    api_get_pvc e (api_calls w) (xcr_Namespace xcr) (xcr_Name xcr) = Inl kerr \<and>
    (flags e ''capacity'' = None \<or> flags e ''capacity'' = Some []) \<longrightarrow>
      (\<exists>err. is_missing_capacity err \<and>
         newMigrationRelationshipDestination_b e w =
           (Inl err,
            w\<lparr> api_calls := api_calls w @ [Get KPVC (xcr_Namespace xcr) (xcr_Name xcr)] \<rparr>)))"
proof (intro conjI impI)
  assume h: "flags e ''copymethod'' = Some cm \<and>
    cm \<in> {CopyMethodDirect, CopyMethodClone, CopyMethodSnapshot} \<and>
    flags e ''pvcname'' = Some pn \<and> ParseXClusterName pn = Inr xcr \<and>
    newClient_err e [] = None \<and>
    api_get_pvc e (api_calls w) (xcr_Namespace xcr) (xcr_Name xcr) = Inl kerr \<and>
    (flags e ''capacity'' = None \<or> flags e ''capacity'' = Some [])"
  then show a: "newMigrationRelationshipDestination_a e w =
        (Inl (MissingCapacity (xcr_Name xcr)),
         w\<lparr> api_calls := api_calls w @ [Get KPVC (xcr_Namespace xcr) (xcr_Name xcr)] \<rparr>)"
    by (intro newMRD_a_missing_capacity[of e cm pn xcr w kerr]) simp_all
  { assume "relationship_err e = None"
    then show "migrationCreate_Run_a e w =
           (Some (MissingCapacity (xcr_Name xcr)),
            w\<lparr> api_calls := api_calls w @ [Get KPVC (xcr_Namespace xcr) (xcr_Name xcr)] \<rparr>)"
      using Run_a_fails_with_destination[OF a] by simp }
next
  assume h: "(flags e ''copymethod'' = None \<and> cm' = ''Snapshot'' \<or> flags e ''copymethod'' = Some cm') \<and>
    cm' \<in> {CopyMethodNone, CopyMethodClone, CopyMethodSnapshot} \<and>
    flags e ''pvcname'' = Some pn \<and> ParseXClusterName pn = Inr xcr \<and>
    newClient_err e [] = None \<and>
    api_get_pvc e (api_calls w) (xcr_Namespace xcr) (xcr_Name xcr) = Inl kerr \<and>
    (flags e ''capacity'' = None \<or> flags e ''capacity'' = Some [])"
  then have "newMigrationRelationshipDestination_b e w =
     (Inl (MissingCapacityErr
             (case flags e ''capacity'' of None \<Rightarrow> Some (FlagNotDefined ''capacity'')
              | Some c \<Rightarrow> None)),
      w\<lparr> api_calls := api_calls w @ [Get KPVC (xcr_Namespace xcr) (xcr_Name xcr)] \<rparr>)"
    by (intro newMRD_b_missing_capacity[of e cm' pn xcr w kerr]) simp_all
  then show "\<exists>err. is_missing_capacity err \<and>
         newMigrationRelationshipDestination_b e w =
           (Inl err,
            w\<lparr> api_calls := api_calls w @ [Get KPVC (xcr_Namespace xcr) (xcr_Name xcr)] \<rparr>)"
    by simp
qed

text \<open>Claim C5 on runs without a capacity, in both versions.\<close>

theorem C5_missing_capacity_witness:
  "newMigrationRelationshipDestination_a env_nocap world0 =
     (Inl (MissingCapacity ''vol1''), world0\<lparr> api_calls := [Get KPVC ''ns1'' ''vol1''] \<rparr>) \<and>
   migrationCreate_Run_a env_nocap world0 =
     (Some (MissingCapacity ''vol1''), world0\<lparr> api_calls := [Get KPVC ''ns1'' ''vol1''] \<rparr>) \<and>
   (\<exists>err. is_missing_capacity err \<and>
      newMigrationRelationshipDestination_b env_nocap world0 =
        (Inl err, world0\<lparr> api_calls := [Get KPVC ''ns1'' ''vol1''] \<rparr>))"
  using C5_missing_capacity[where e = env_nocap and cm = "''Clone''" and cm' = "''Clone''"
      and pn = "''ns1/vol1''" and w = world0 and kerr = NotFound
      and xcr = "\<lparr> xcr_Cluster = [], xcr_Namespace = ''ns1'', xcr_Name = ''vol1'' \<rparr>"]
  by (simp add: migration_examples parse_ns1_vol1 api_consts)

subsection \<open>What each step of a run changes\<close>

lemma waitLoop_frame:
  assumes frame: "\<And>s w. snd (snd (cond s w)) = w\<lparr> api_calls := api_calls w @ [c] \<rparr>"
    and run: "waitLoop i T t cond s w = (r, s', w')"
  shows "\<exists>j d. w' = after_polls w c j d"
proof (rule waitLoop_invariant[where Q = "\<lambda>x. \<exists>j d. x = after_polls w c j d", OF _ _ _ run])
  fix s x r s' x'
  assume c: "cond s x = (r, s', x')" and "\<exists>j d. x = after_polls w c j d"
  then obtain j d where "x = after_polls w c j d" by blast
  moreover have "x' = x\<lparr> api_calls := api_calls x @ [c] \<rparr>" using frame[of s x] c by simp
  ultimately have "x' = after_polls w c (Suc j) d" by (simp add: after_polls_call)
  then show "\<exists>j d. x' = after_polls w c j d" by blast
next
  fix d x assume "\<exists>j d. x = after_polls w c j d"
  then obtain j d0 where "x = after_polls w c j d0" by blast
  then have "sleep d x = after_polls w c j (d0 + d)" by (simp add: after_polls_sleep)
  then show "\<exists>j d'. sleep d x = after_polls w c j d'" by blast
next
  show "\<exists>j d. w = after_polls w c j d" using after_polls_0[of w c, symmetric] by blast
qed

lemma saved_after_polls: "saved (after_polls w c j d) = saved w"
  and removed_after_polls: "removed (after_polls w c j d) = removed w"
  by (simp_all add: after_polls_def)

lemma createNamespace_a_frame:
  "createNamespace_a e mrd w = (r, w') \<Longrightarrow>
     w' = w\<lparr> api_calls := api_calls w @ [Create (ONamespace (mrd_Namespace mrd))] \<rparr>"
  by (auto simp: createNamespace_a_def client_Create_def split: option.splits if_splits)

lemma createNamespace_b_frame:
  "createNamespace_b e mrd w = (r, w') \<Longrightarrow>
     w' = w\<lparr> api_calls := api_calls w @ [Create (ONamespace (mrd_Namespace mrd))] \<rparr>"
  by (auto simp: createNamespace_b_def client_Create_def split: option.splits if_splits)

lemma createDestinationPVC_a_frame:
  "createDestinationPVC_a e mrd w = (r, w') \<Longrightarrow>
     w' = w \<or> (\<exists>p. w' = w\<lparr> api_calls := api_calls w @ [Create (OPVC p)] \<rparr>)"
  by (auto simp: createDestinationPVC_a_def client_Create_pvc_def Let_def
      split: option.splits sum.splits)

lemma createDestinationPVC_a_names:
  "createDestinationPVC_a e mrd w = (Inr (p, mrd'), w') \<Longrightarrow>
     mrd_MDName mrd' = mrd_MDName mrd \<and> mrd_Namespace mrd' = mrd_Namespace mrd \<and>
     mrd_PVCName mrd' = mrd_PVCName mrd"
  by (auto simp: createDestinationPVC_a_def client_Create_pvc_def Let_def
      split: option.splits sum.splits)

lemma createDestinationPVC_b_frame:
  "createDestinationPVC_b e mrd w = (r, w') \<Longrightarrow>
     w' = w \<or> (\<exists>p. w' = w\<lparr> api_calls := api_calls w @ [Create (OPVC p)] \<rparr>)"
  by (auto simp: createDestinationPVC_b_def client_Create_pvc_def Let_def
      split: option.splits sum.splits)

lemma createDestination_cond_frame:
  "snd (snd (createDestination_cond e ns n s w)) = w\<lparr> api_calls := api_calls w @ [Get KRD ns n] \<rparr>"
  by (simp add: createDestination_cond_def client_Get_rd_def split: sum.split option.split)

lemma createDestination_frame:
  assumes "createDestination e mrd w = (r, w')"
  shows "\<exists>rd j d. rd_Name rd = mrd_MDName mrd \<and> rd_Namespace rd = mrd_Namespace mrd \<and>
     w' = after_polls (w\<lparr> api_calls := api_calls w @ [Create (ORD rd)] \<rparr>)
            (Get KRD (mrd_Namespace mrd) (mrd_MDName mrd)) j d"
proof -
  let ?rd = "\<lparr> rd_Name = mrd_MDName mrd, rd_Namespace = mrd_Namespace mrd,
     rd_Rsync = emptyRsyncSpec\<lparr> CopyMethod := CopyMethod (mrd_Destination mrd),
        DestinationPVC := Some (mrd_PVCName mrd),
        ServiceType := ServiceType (mrd_Destination mrd) \<rparr>, rd_Status = None \<rparr>"
  let ?w1 = "w\<lparr> api_calls := api_calls w @ [Create (ORD ?rd)] \<rparr>"
  let ?c = "Get KRD (mrd_Namespace mrd) (mrd_MDName mrd)"
  let ?P = "PollImmediate 5 120 (createDestination_cond e (mrd_Namespace mrd) (mrd_MDName mrd))
              emptyReplicationDestination ?w1"
  have "w' = ?w1 \<or> w' = snd (snd ?P)"
    using assms
    by (auto simp: createDestination_def client_Create_def Let_def
        split: option.splits prod.splits)
  moreover have "\<exists>j d. snd (snd ?P) = after_polls ?w1 ?c j d"
    using waitLoop_frame[of "createDestination_cond e (mrd_Namespace mrd) (mrd_MDName mrd)" ?c
        5 120 0 emptyReplicationDestination ?w1 "fst ?P" "fst (snd ?P)" "snd (snd ?P)"]
    by (simp add: createDestination_cond_frame PollImmediate_def)
  moreover have "?w1 = after_polls ?w1 ?c 0 0" by (simp add: after_polls_0)
  ultimately have "\<exists>j d. w' = after_polls ?w1 ?c j d" by metis
  then show ?thesis by (intro exI[of _ ?rd]) simp
qed

lemma CreateDestination_frame:
  assumes "CreateDestination e mrd w = (r, w')"
  shows "\<exists>rd. rd_Name rd = mrd_Namespace mrd @ ''-'' @ mrd_PVCName mrd @ ''-replication-dest'' \<and>
       rd_Namespace rd = mrd_Namespace mrd \<and>
       w' = w\<lparr> api_calls := api_calls w @ [Create (ORD rd)] \<rparr>"
proof -
  let ?rd = "\<lparr> rd_Name = mrd_Namespace mrd @ ''-'' @ mrd_PVCName mrd @ ''-replication-dest'',
     rd_Namespace = mrd_Namespace mrd,
     rd_Rsync = emptyRsyncSpec\<lparr> CopyMethod := CopyMethod (mrd_Destination mrd),
        DestinationPVC := Some (mrd_PVCName mrd),
        ServiceType := ServiceType (mrd_Destination mrd) \<rparr>, rd_Status = None \<rparr>"
  have "w' = w\<lparr> api_calls := api_calls w @ [Create (ORD ?rd)] \<rparr>"
    using assms
    by (auto simp: CreateDestination_def client_Create_def Let_def split: option.splits)
  then show ?thesis by (intro exI[of _ ?rd]) simp
qed

lemma Relationship_Save_frame:
  "Relationship_Save e r w = (res, w') \<Longrightarrow>
     (res = None \<and> w' = w\<lparr> saved := saved w @ [rel_settings r] \<rparr>) \<or>
     (res \<noteq> None \<and> w' = w)"
  by (auto simp: Relationship_Save_def split: option.splits)

lemma Save_a_frame:
  "migrationRelationship_Save_a e mr w = (res, w') \<Longrightarrow>
     (res = None \<and> (\<exists>doc. w' = w\<lparr> saved := saved w @ [doc] \<rparr>)) \<or> (res \<noteq> None \<and> w' = w)"
  unfolding migrationRelationship_Save_a_def Let_def
  by (drule Relationship_Save_frame) auto

lemma Save_b_frame:
  "migrationRelationship_Save_b e mr w = (res, w') \<Longrightarrow>
     (res = None \<and> (\<exists>doc. w' = w\<lparr> saved := saved w @ [doc] \<rparr>)) \<or> (res \<noteq> None \<and> w' = w)"
  unfolding migrationRelationship_Save_b_def Let_def
  by (drule Relationship_Save_frame) auto

lemma backup_Save_frame:
  "pvBackupRelationship_Save e pr w = (res, w') \<Longrightarrow>
     (res = None \<and> (\<exists>doc. w' = w\<lparr> saved := saved w @ [doc] \<rparr>)) \<or> (res \<noteq> None \<and> w' = w)"
  unfolding pvBackupRelationship_Save_def
  by (auto split: option.splits dest: Relationship_Save_frame)

lemma Run_a_saved:
  assumes "migrationCreate_Run_a e w = (r, w')"
  shows "removed w' = removed w \<and> (r \<noteq> None \<longrightarrow> saved w' = saved w) \<and>
     (r = None \<longrightarrow> (\<exists>doc. saved w' = saved w @ [doc]))"
  using assms unfolding migrationCreate_Run_a_def
  by (auto split: sum.splits prod.splits option.splits
      dest!: newMRD_a_frame createNamespace_a_frame createDestinationPVC_a_frame
        createDestination_frame Save_a_frame
      simp: saved_after_polls removed_after_polls)

lemma ensureSecret_frame:
  "ensureSecret e pc w = (r, w') \<Longrightarrow>
     w' = w \<or> (\<exists>s. w' = w\<lparr> api_calls := api_calls w @ [Create (OSecret s)] \<rparr>)"
  by (auto simp: ensureSecret_def client_Create_def Let_def split: option.splits prod.splits)

lemma ensureReplicationSource_frame:
  "ensureReplicationSource e pc w = (r, w') \<Longrightarrow>
     w' = w \<or> (\<exists>rs. w' = w\<lparr> api_calls := api_calls w @ [Create (ORS rs)] \<rparr>)"
  by (auto simp: ensureReplicationSource_def client_Create_def Let_def
      split: option.splits prod.splits)

lemma waitForRSStatus_saved:
  assumes "waitForRSStatus e prd w = (r, w')"
  shows "saved w' = saved w \<and> removed w' = removed w"
proof -
  let ?P = "waitLoop 5 (defaultRsyncKeyTimeout e) 0 (waitForRSStatus_cond e prd) None w"
  have w': "w' = snd (snd ?P)"
    using assms by (auto simp: waitForRSStatus_def PollImmediate_def split: prod.splits option.splits)
  have "saved (snd (snd ?P)) = saved w \<and> removed (snd (snd ?P)) = removed w"
  proof (rule waitLoop_invariant[where Q = "\<lambda>x. saved x = saved w \<and> removed x = removed w"
        and cond = "waitForRSStatus_cond e prd" and w = w and r = "fst ?P" and s' = "fst (snd ?P)"
        and i = 5 and T = "defaultRsyncKeyTimeout e" and t = 0 and s = None])
    fix s x r s' x'
    assume "waitForRSStatus_cond e prd s x = (r, s', x')"
      and "saved x = saved w \<and> removed x = removed w"
    then show "saved x' = saved w \<and> removed x' = removed w"
      by (auto simp: waitForRSStatus_cond_def getReplicationSource_def client_Get_rs_def
          split: sum.splits option.splits if_splits)
  qed (simp_all add: sleep_def)
  then show ?thesis using w' by simp
qed

lemma backup_Run_saved:
  assumes "pvBackupCreate_Run e pc w = (r, w')"
  shows "(r \<noteq> None \<longrightarrow> saved w' = saved w \<and> removed w' = removed w) \<and>
     (r = None \<longrightarrow> (\<exists>doc. saved w' = saved w @ [doc]))"
proof (cases "newClient e (pc_Cluster pc)")
  case (Some err)
  with assms have "r = Some err \<and> w' = w" by (auto simp: pvBackupCreate_Run_def)
  then show ?thesis by simp
next
  case None
  with assms show ?thesis
    unfolding pvBackupCreate_Run_def Let_def
    by (auto split: sum.splits prod.splits option.splits
        dest!: ensureSecret_frame ensureReplicationSource_frame waitForRSStatus_saved
          backup_Save_frame)
qed

lemma backup_RunE_saved:
  assumes "pvBackupCreateCmd_RunE e w = (r, w')"
  shows "(r \<noteq> None \<longrightarrow> saved w' = saved w \<and> removed w' = removed w) \<and>
     (r = None \<longrightarrow> (\<exists>doc. saved w' = saved w @ [doc]))"
  using assms unfolding pvBackupCreateCmd_RunE_def
  by (auto split: sum.splits dest: backup_Run_saved)

lemmas bug_examples = migration_flags_b_def env_b_nocap_def pvc0_def env_b_existing_def
  backup_flags_def restic_conf_def env_no_cronspec_def env_secret_exists_def nightly_secret_def
  cluster0_def world0_def

lemmas Run_b_eval = migrationCreate_Run_b_def newmigrationRelationship_def
  CreateRelationshipFromCommand_def migrationRelationship_Save_b_def destination_capacity_def
  Relationship_Save_def rel_Set_def createNamespace_b_def createDestinationPVC_b_def
  CreateDestination_def client_Create_def client_Create_pvc_def IsAlreadyExists_def

lemmas backup_eval = pvBackupCreateCmd_RunE_def newPVBackupCreate_def
  newPVBackupRelationship_def CreateRelationshipFromCommand_def parseCLI_def
  parseResticConfig_def parseCronSpec_def emptyPVBackupCreate_def GetString_def
  ParseXClusterName_def pvBackupCreate_Run_def newClient_def
  newPVBackupRelationshipSource_def ensureSecret_def assert_string_def client_Create_def

text \<open>Claim C1 (a run that fails saves no relationship record and returns an error) against
  \<open>migrationCreate.Run\<close> of lines 558-596. With no PVC \<open>ns1/vol1\<close> and no capacity,
  building the destination fails with the missing-capacity error; the run has saved a record
  without a destination before that and returns nil. The run of lines 208-242 and the backup
  run keep the claim: \<open>Run_a_saved\<close>, \<open>backup_RunE_saved\<close>.\<close>

theorem C1_Run_b_saves_first_and_returns_nil:
  "newMigrationRelationshipDestination_b env_b_nocap world0 =
     (Inl (MissingCapacityErr None), world0\<lparr> api_calls := [Get KPVC ''ns1'' ''vol1''] \<rparr>) \<and>
   migrationCreate_Run_b env_b_nocap world0 =
     (None, world0\<lparr> api_calls := [Get KPVC ''ns1'' ''vol1''],
              saved := [[(''data'', VMigration \<lparr> md_Version = 1, md_Source = None,
                                                md_Destination = None \<rparr>)]] \<rparr>)"
  by (simp add: bug_examples newMRD_b_eval Run_b_eval)

text \<open>Claim C4 (a PVC that exists is returned unchanged, is not created again, and its
  access modes, capacity and storage class are copied into the relationship record) against
  lines 599-675. The PVC \<open>ns1/vol1\<close> exists with ReadWriteMany, 20Gi and the class
  \<open>fast\<close>: the destination built keeps the PVC and has no capacity, no access mode and no
  storage class, and the record saved has no destination. The version of lines 245-324 keeps
  the claim: \<open>newMRD_a_reuses_existing_pvc\<close>, \<open>Run_a_reuse\<close>.\<close>

theorem C4_version_b_reads_nothing_from_the_pvc:
  "newMigrationRelationshipDestination_b env_b_existing world0 =
     (Inr (emptyDestination\<lparr>
             mrd_Namespace := ''ns1'', mrd_PVCName := ''vol1'', mrd_PVC := Some pvc0,
             mrd_Destination := emptyRsyncSpec\<lparr> CopyMethod := ''Snapshot'',
                ServiceType := Some ''ClusterIP'' \<rparr> \<rparr>),
      world0\<lparr> api_calls := [Get KPVC ''ns1'' ''vol1''] \<rparr>) \<and>
   Capacity emptyRsyncSpec = None \<and> AccessModes emptyRsyncSpec = [] \<and>
   StorageClassName emptyRsyncSpec = None \<and>
   saved (snd (migrationCreate_Run_b env_b_existing world0)) =
     [[(''data'', VMigration \<lparr> md_Version = 1, md_Source = None, md_Destination = None \<rparr>)]]"
  by (simp add: bug_examples newMRD_b_eval Run_b_eval)

text \<open>Claim C3 (already-exists is swallowed for a namespace and for a secret, and fatal for
  an intent object) against \<open>pvBackupCreate.ensureSecret\<close>. The secret \<open>nightly\<close> exists
  in \<open>ns1\<close>: the create of the backup relationship fails with the already-exists error.
  The other functions that create an object keep the claim: \<open>already_exists_elsewhere\<close>.\<close>

theorem C3_ensureSecret_already_exists_is_fatal:
  "api_create env_secret_exists [] (OSecret nightly_secret) = Some AlreadyExists \<and>
   pvBackupCreateCmd_RunE env_secret_exists world0 =
     (Some (Wrapf ''failed to create secrete, '' (Some (ApiError AlreadyExists))),
      world0\<lparr> api_calls := [Create (OSecret nightly_secret)] \<rparr>)"
  by (simp add: bug_examples backup_eval)

text \<open>Claim C6 (an empty schedule is not validated and never fails the create) against
  \<open>pvBackupCreate.parseCLI\<close>. Without \<open>--cronspec\<close> the flag holds its default, the empty
  text; it goes to the cron parser like any other, the parser refuses it, and the create
  fails before any call to the cluster.\<close>

theorem C6_empty_schedule_is_parsed_and_rejected:
  "flags env_no_cronspec ''cronspec'' = Some [] \<and>
   cron_err env_no_cronspec [] = Some ''empty spec string'' \<and>
   pvBackupCreateCmd_RunE env_no_cronspec world0 =
     (Some (Wrapf ''failed to parse the cronspec, err = ''
              (Some (CronParseError ''empty spec string''))), world0)"
  by (simp add: bug_examples backup_eval)

lemma rd_names_append: "rd_names (xs @ ys) = rd_names xs @ rd_names ys"
  by (induction xs rule: rd_names.induct) simp_all

lemma rd_names_gets: "rd_names (replicate j (Get k ns n)) = []"
  by (induction j) simp_all

lemma rd_names_after_polls:
  "rd_names (api_calls (after_polls w (Get k ns n) j d)) = rd_names (api_calls w)"
  by (simp add: after_polls_def rd_names_append rd_names_gets)

lemma newMRD_a_names:
  assumes "newMigrationRelationshipDestination_a e w = (Inr (pvc, mrd), w')"
    and "flags e ''pvcname'' = Some pn" and "ParseXClusterName pn = Inr xcr"
  shows "mrd_Namespace mrd = xcr_Namespace xcr \<and> mrd_PVCName mrd = xcr_Name xcr \<and>
     mrd_MDName mrd = xcr_Namespace xcr @ ''-'' @ xcr_Name xcr @ ''-migration-dest''"
proof -
  from assms(1) obtain mrd1 mrd2 where
    v: "newMRD_a_validate e = Inr mrd1"
    and vol: "newMRD_a_volume e pvc mrd1 = Inr mrd2"
    and svc: "newMRD_a_service e mrd2 = Inr mrd"
    unfolding newMigrationRelationshipDestination_a_def getDestinationPVC_a_eq
    by (auto split: sum.splits)
  from v assms(2,3) have n1: "mrd_Namespace mrd1 = xcr_Namespace xcr \<and> mrd_PVCName mrd1 = xcr_Name xcr"
    by (auto simp: newMRD_a_validate_def GetString_def Let_def emptyDestination_def
        split: option.splits if_splits)
  from vol have n2: "mrd_Namespace mrd2 = mrd_Namespace mrd1 \<and> mrd_PVCName mrd2 = mrd_PVCName mrd1"
    by (auto simp: newMRD_a_volume_def GetString_def Let_def
        split: option.splits sum.splits if_splits)
  from svc have "mrd_Namespace mrd = mrd_Namespace mrd2 \<and> mrd_PVCName mrd = mrd_PVCName mrd2 \<and>
      mrd_MDName mrd = mrd_Namespace mrd2 @ ''-'' @ mrd_PVCName mrd2 @ ''-migration-dest''"
    by (auto simp: newMRD_a_service_def GetString_def split: option.splits if_splits)
  with n1 n2 show ?thesis by simp
qed

lemma newMRD_b_names:
  assumes "newMigrationRelationshipDestination_b e w = (Inr mrd, w')"
    and "flags e ''pvcname'' = Some pn" and "ParseXClusterName pn = Inr xcr"
  shows "mrd_Namespace mrd = xcr_Namespace xcr \<and> mrd_PVCName mrd = xcr_Name xcr"
proof -
  from assms(1) obtain mrd1 mrd2 pvc where
    v: "newMRD_b_validate e = Inr mrd1"
    and vol: "newMRD_b_volume e pvc (mrd1\<lparr> mrd_PVC := pvc \<rparr>) = Inr mrd2"
    and svc: "newMRD_b_service e mrd2 = Inr mrd"
    unfolding newMigrationRelationshipDestination_b_def getDestinationPVC_b_eq
    by (auto split: sum.splits)
  from v assms(2,3) have n1: "mrd_Namespace mrd1 = xcr_Namespace xcr \<and> mrd_PVCName mrd1 = xcr_Name xcr"
    by (auto simp: newMRD_b_validate_def GetString_def Let_def emptyDestination_def
        split: option.splits if_splits)
  from vol have n2: "mrd_Namespace mrd2 = mrd_Namespace mrd1 \<and> mrd_PVCName mrd2 = mrd_PVCName mrd1"
    by (auto simp: newMRD_b_volume_def GetString_def Let_def
        split: option.splits sum.splits if_splits)
  from svc have "mrd_Namespace mrd = mrd_Namespace mrd2 \<and> mrd_PVCName mrd = mrd_PVCName mrd2"
    by (auto simp: newMRD_b_service_def GetString_def split: option.splits if_splits)
  with n1 n2 show ?thesis by simp
qed

lemma newMRD_a_outcome:
  assumes run: "newMigrationRelationshipDestination_a e w = (r, w')"
    and pn: "flags e ''pvcname'' = Some pn" and xcr: "ParseXClusterName pn = Inr xcr"
  shows "rd_names (api_calls w') = rd_names (api_calls w) \<and>
     (\<forall>pvc mrd. r = Inr (pvc, mrd) \<longrightarrow>
        mrd_Namespace mrd = xcr_Namespace xcr \<and> mrd_PVCName mrd = xcr_Name xcr \<and>
        mrd_MDName mrd = xcr_Namespace xcr @ ''-'' @ xcr_Name xcr @ ''-migration-dest'')"
  using newMRD_a_frame[OF run] newMRD_a_names[OF _ pn xcr] run
  by (auto simp: rd_names_append)

lemma createNamespace_a_rd_names:
  "createNamespace_a e mrd w = (r, w') \<Longrightarrow> rd_names (api_calls w') = rd_names (api_calls w)"
  by (auto dest!: createNamespace_a_frame simp: rd_names_append)

lemma createDestinationPVC_a_outcome:
  assumes "createDestinationPVC_a e mrd w = (r, w')"
  shows "rd_names (api_calls w') = rd_names (api_calls w) \<and>
     (\<forall>p mrd'. r = Inr (p, mrd') \<longrightarrow>
        mrd_MDName mrd' = mrd_MDName mrd \<and> mrd_Namespace mrd' = mrd_Namespace mrd \<and>
        mrd_PVCName mrd' = mrd_PVCName mrd)"
  using createDestinationPVC_a_frame[OF assms] createDestinationPVC_a_names assms
  by (auto simp: rd_names_append)

lemma createDestination_rd_names:
  "createDestination e mrd w = (r, w') \<Longrightarrow>
     rd_names (api_calls w') = rd_names (api_calls w) @ [mrd_MDName mrd]"
  by (auto dest!: createDestination_frame simp: rd_names_after_polls rd_names_append)

lemma Save_a_rd_names:
  "migrationRelationship_Save_a e mr w = (r, w') \<Longrightarrow> api_calls w' = api_calls w"
  by (auto dest!: Save_a_frame)

lemma Run_a_rd_names:
  assumes run: "migrationCreate_Run_a e w = (r, w')"
    and pn: "flags e ''pvcname'' = Some pn" and xcr: "ParseXClusterName pn = Inr xcr"
  shows "(rd_names (api_calls w') = rd_names (api_calls w) \<or>
          rd_names (api_calls w') = rd_names (api_calls w) @
            [xcr_Namespace xcr @ ''-'' @ xcr_Name xcr @ ''-migration-dest'']) \<and>
         (r = None \<longrightarrow> rd_names (api_calls w') = rd_names (api_calls w) @
            [xcr_Namespace xcr @ ''-'' @ xcr_Name xcr @ ''-migration-dest''])"
  using run unfolding migrationCreate_Run_a_def
  by (auto split: sum.splits prod.splits option.splits
      dest!: newMRD_a_outcome[OF _ pn xcr] createNamespace_a_rd_names
        createDestinationPVC_a_outcome createDestination_rd_names Save_a_rd_names)

lemmas name_examples = rd_ready0_def env_ready_def env_b_10Gi_def migration_flags_def
  migration_flags_b_def cluster0_def world0_def

lemmas Run_a_eval = migrationCreate_Run_a_def newmigrationRelationship_def
  CreateRelationshipFromCommand_def migrationRelationship_Save_a_def destination_settings_def
  Relationship_Save_def rel_Set_def createNamespace_a_def createDestinationPVC_a_def
  createDestination_def createDestination_cond_def emptyReplicationDestination_def
  PollImmediate_def waitLoop.simps client_Get_rd_def
  client_Create_def client_Create_pvc_def IsAlreadyExists_def

lemma newMRD_b_outcome:
  assumes run: "newMigrationRelationshipDestination_b e w = (r, w')"
    and pn: "flags e ''pvcname'' = Some pn" and xcr: "ParseXClusterName pn = Inr xcr"
  shows "rd_names (api_calls w') = rd_names (api_calls w) \<and>
     (\<forall>mrd. r = Inr mrd \<longrightarrow>
        mrd_Namespace mrd = xcr_Namespace xcr \<and> mrd_PVCName mrd = xcr_Name xcr)"
  using newMRD_b_frame[OF run] newMRD_b_names[OF _ pn xcr] run
  by (auto simp: rd_names_append)

lemma createNamespace_b_rd_names:
  "createNamespace_b e mrd w = (r, w') \<Longrightarrow> rd_names (api_calls w') = rd_names (api_calls w)"
  by (auto dest!: createNamespace_b_frame simp: rd_names_append)

lemma createDestinationPVC_b_rd_names:
  "createDestinationPVC_b e mrd w = (r, w') \<Longrightarrow> rd_names (api_calls w') = rd_names (api_calls w)"
  by (auto dest!: createDestinationPVC_b_frame simp: rd_names_append)

lemma CreateDestination_rd_names:
  "CreateDestination e mrd w = (r, w') \<Longrightarrow>
     rd_names (api_calls w') = rd_names (api_calls w) @
       [mrd_Namespace mrd @ ''-'' @ mrd_PVCName mrd @ ''-replication-dest'']"
  by (auto dest!: CreateDestination_frame simp: rd_names_append)

lemma Save_b_rd_names:
  "migrationRelationship_Save_b e mr w = (r, w') \<Longrightarrow> api_calls w' = api_calls w"
  by (auto dest!: Save_b_frame)

lemma Run_b_rd_names:
  assumes run: "migrationCreate_Run_b e w = (r, w')"
    and pn: "flags e ''pvcname'' = Some pn" and xcr: "ParseXClusterName pn = Inr xcr"
  shows "rd_names (api_calls w') = rd_names (api_calls w) \<or>
          rd_names (api_calls w') = rd_names (api_calls w) @
            [xcr_Namespace xcr @ ''-'' @ xcr_Name xcr @ ''-replication-dest'']"
proof (cases "newmigrationRelationship e")
  case (Inl err)
  with run show ?thesis by (simp add: migrationCreate_Run_b_def)
next
  case (Inr m)
  obtain r0 w0 where s0: "migrationRelationship_Save_b e m w = (r0, w0)"
    by (cases "migrationRelationship_Save_b e m w")
  have c0: "api_calls w0 = api_calls w" by (rule Save_b_rd_names[OF s0])
  show ?thesis
  proof (cases r0)
    case (Some err)
    with run Inr s0 c0 show ?thesis by (simp add: migrationCreate_Run_b_def)
  next
    case None
    obtain r1 w1 where s1: "newMigrationRelationshipDestination_b e w0 = (r1, w1)"
      by (cases "newMigrationRelationshipDestination_b e w0")
    note o1 = newMRD_b_outcome[OF s1 pn xcr]
    show ?thesis
    proof (cases r1)
      case (Inl err)
      with run Inr s0 None s1 o1 c0 show ?thesis by (simp add: migrationCreate_Run_b_def)
    next
      case mrd: (Inr mrd)
      with o1 have nm: "mrd_Namespace mrd = xcr_Namespace xcr" "mrd_PVCName mrd = xcr_Name xcr"
        and c1: "rd_names (api_calls w1) = rd_names (api_calls w0)" by simp_all
      obtain r2 w2 where s2: "createNamespace_b e mrd w1 = (r2, w2)"
        by (cases "createNamespace_b e mrd w1")
      have c2: "rd_names (api_calls w2) = rd_names (api_calls w1)"
        by (rule createNamespace_b_rd_names[OF s2])
      show ?thesis
      proof (cases r2)
        case (Some err)
        with run Inr s0 None s1 mrd s2 c0 c1 c2 show ?thesis
          by (simp add: migrationCreate_Run_b_def)
      next
        case ns: None
        let ?step = "case mrd_PVC mrd of
           None \<Rightarrow>
             (case createDestinationPVC_b e mrd w2 of
                (Inl err, w3) \<Rightarrow> (Inl err, w3)
              | (Inr created, w3) \<Rightarrow> (Inr (mrd\<lparr> mrd_PVC := Some created \<rparr>), w3))
         | Some p \<Rightarrow> (Inr mrd, w2)"
        obtain r3 w3 where s3: "?step = (r3, w3)" by (cases ?step)
        have c3: "rd_names (api_calls w3) = rd_names (api_calls w2)"
          using s3
          by (auto split: option.splits sum.splits prod.splits
              dest: createDestinationPVC_b_rd_names)
        have n3: "\<forall>mrd3. r3 = Inr mrd3 \<longrightarrow>
            mrd_Namespace mrd3 = mrd_Namespace mrd \<and> mrd_PVCName mrd3 = mrd_PVCName mrd"
          using s3 by (auto split: option.splits sum.splits prod.splits)
        show ?thesis
        proof (cases r3)
          case (Inl err)
          with run Inr s0 None s1 mrd s2 ns s3 c0 c1 c2 c3 show ?thesis
            by (simp add: migrationCreate_Run_b_def)
        next
          case m3: (Inr mrd3)
          obtain r4 w4 where s4: "CreateDestination e mrd3 w3 = (r4, w4)"
            by (cases "CreateDestination e mrd3 w3")
          from CreateDestination_rd_names[OF s4] n3 m3 nm
          have c4: "rd_names (api_calls w4) = rd_names (api_calls w3) @
              [xcr_Namespace xcr @ ''-'' @ xcr_Name xcr @ ''-replication-dest'']" by simp
          have "w' = w4"
            using run Inr s0 None s1 mrd s2 ns s3 m3 s4
            by (simp add: migrationCreate_Run_b_def split: option.splits)
          with c0 c1 c2 c3 c4 show ?thesis by simp
        qed
      qed
    qed
  qed
qed

text \<open>Claim C7 as stated fails: \<open>CreateDestination\<close> of lines 737-762 submits an object
  named \<open>ns1-vol1-replication-dest\<close>.\<close>

theorem C7_counterexample:
  "flags env_b_10Gi ''pvcname'' = Some ''ns1/vol1'' \<and>
   rd_names (api_calls (snd (migrationCreate_Run_b env_b_10Gi world0))) =
     [''ns1-vol1-replication-dest''] \<and>
   ''ns1-vol1-replication-dest'' \<noteq> ''ns1'' @ ''-'' @ ''vol1'' @ ''-migration-dest''"
  by (simp add: name_examples newMRD_b_eval Run_b_eval Let_def)

text \<open>Claim C7, as amended. With the namespace \<open>ns\<close> and the PVC name \<open>pvc\<close> resolved
  from the flag \<open>pvcname\<close>, a run submits at most one destination object: the first version
  names it \<open>ns-pvc-migration-dest\<close> (and submits it whenever the run succeeds), the second
  \<open>ns-pvc-replication-dest\<close>. In both the name depends on \<open>ns\<close> and \<open>pvc\<close> only, so
  repeated invocations address the same object.\<close>

theorem C7_destination_object_name:
  "(flags e ''pvcname'' = Some pn \<and> ParseXClusterName pn = Inr xcr \<longrightarrow>
      (rd_names (api_calls (snd (migrationCreate_Run_a e w))) = rd_names (api_calls w) \<or>
       rd_names (api_calls (snd (migrationCreate_Run_a e w))) = rd_names (api_calls w) @
         [xcr_Namespace xcr @ ''-'' @ xcr_Name xcr @ ''-migration-dest'']) \<and>
      (fst (migrationCreate_Run_a e w) = None \<longrightarrow>
       rd_names (api_calls (snd (migrationCreate_Run_a e w))) = rd_names (api_calls w) @
         [xcr_Namespace xcr @ ''-'' @ xcr_Name xcr @ ''-migration-dest'']) \<and>
      (rd_names (api_calls (snd (migrationCreate_Run_b e w))) = rd_names (api_calls w) \<or>
       rd_names (api_calls (snd (migrationCreate_Run_b e w))) = rd_names (api_calls w) @
         [xcr_Namespace xcr @ ''-'' @ xcr_Name xcr @ ''-replication-dest''])) \<and>
   rd_names (api_calls (snd (createDestination e mrd w))) =
     rd_names (api_calls w) @ [mrd_MDName mrd] \<and>
   rd_names (api_calls (snd (CreateDestination e mrd w))) =
     rd_names (api_calls w) @
       [mrd_Namespace mrd @ ''-'' @ mrd_PVCName mrd @ ''-replication-dest'']"
proof (intro conjI impI)
  assume h: "flags e ''pvcname'' = Some pn \<and> ParseXClusterName pn = Inr xcr"
  note a = Run_a_rd_names[OF surjective_pairing conjunct1[OF h] conjunct2[OF h], of w]
  show "rd_names (api_calls (snd (migrationCreate_Run_a e w))) = rd_names (api_calls w) \<or>
       rd_names (api_calls (snd (migrationCreate_Run_a e w))) = rd_names (api_calls w) @
         [xcr_Namespace xcr @ ''-'' @ xcr_Name xcr @ ''-migration-dest'']"
    using a by blast
  { assume "fst (migrationCreate_Run_a e w) = None"
    then show "rd_names (api_calls (snd (migrationCreate_Run_a e w))) = rd_names (api_calls w) @
         [xcr_Namespace xcr @ ''-'' @ xcr_Name xcr @ ''-migration-dest'']"
      using a by blast }
  show "rd_names (api_calls (snd (migrationCreate_Run_b e w))) = rd_names (api_calls w) \<or>
       rd_names (api_calls (snd (migrationCreate_Run_b e w))) = rd_names (api_calls w) @
         [xcr_Namespace xcr @ ''-'' @ xcr_Name xcr @ ''-replication-dest'']"
    by (rule Run_b_rd_names[OF surjective_pairing conjunct1[OF h] conjunct2[OF h]])
next
  show "rd_names (api_calls (snd (createDestination e mrd w))) =
     rd_names (api_calls w) @ [mrd_MDName mrd]"
    by (rule createDestination_rd_names[OF surjective_pairing])
  show "rd_names (api_calls (snd (CreateDestination e mrd w))) =
     rd_names (api_calls w) @
       [mrd_Namespace mrd @ ''-'' @ mrd_PVCName mrd @ ''-replication-dest'']"
    by (rule CreateDestination_rd_names[OF surjective_pairing])
qed

lemma Run_a_env_ready:
  "fst (migrationCreate_Run_a env_ready world0) = None"
  by (simp add: name_examples newMRD_a_eval Run_a_eval Let_def)

text \<open>Claim C7 on a run of each version for \<open>ns1/vol1\<close>.\<close>

theorem C7_destination_object_name_witness:
  "rd_names (api_calls (snd (migrationCreate_Run_a env_ready world0))) =
     [''ns1-vol1-migration-dest''] \<and>
   (rd_names (api_calls (snd (migrationCreate_Run_b env_b_10Gi world0))) = [] \<or>
    rd_names (api_calls (snd (migrationCreate_Run_b env_b_10Gi world0))) =
      [''ns1-vol1-replication-dest''])"
proof -
  have pa: "flags env_ready ''pvcname'' = Some ''ns1/vol1''"
    and pb: "flags env_b_10Gi ''pvcname'' = Some ''ns1/vol1''"
    by (simp_all add: name_examples)
  show ?thesis
    using C7_destination_object_name[where e = env_ready and pn = "''ns1/vol1''" and w = world0
        and xcr = "\<lparr> xcr_Cluster = [], xcr_Namespace = ''ns1'', xcr_Name = ''vol1'' \<rparr>"]
      C7_destination_object_name[where e = env_b_10Gi and pn = "''ns1/vol1''" and w = world0
        and xcr = "\<lparr> xcr_Cluster = [], xcr_Namespace = ''ns1'', xcr_Name = ''vol1'' \<rparr>"]
      pa pb parse_ns1_vol1 Run_a_env_ready
    by (simp add: world0_def)
qed

text \<open>Claim C9. \<open>checkPVCMountStatus\<close> returns nil exactly when the lookup succeeds and
  finds no pod using the PVC; when pods use it the error names the PVC and those pods, in
  the order of the lookup; when the lookup fails the error wraps the lookup's.\<close>

theorem C9_checkPVCMountStatus:
  "(checkPVCMountStatus lookup pvc = None \<longleftrightarrow> lookup pvc = Inr []) \<and>
   (lookup pvc = Inr pods \<and> pods \<noteq> [] \<longrightarrow>
      checkPVCMountStatus lookup pvc = Some (PVCInUse (pvc_Name pvc) (map pod_Name pods))) \<and>
   (lookup pvc = Inl err \<longrightarrow>
      checkPVCMountStatus lookup pvc =
        Some (Wrapf ''failed to fetch the pvc affinity, '' (Some err)))"
  by (auto simp: checkPVCMountStatus_def split: sum.splits)

text \<open>Claim C9 on a PVC used by two pods, by none, and with a lookup that fails.\<close>

theorem C9_checkPVCMountStatus_witness:
  "checkPVCMountStatus (\<lambda>p. Inr pods_web) pvc0 = Some (PVCInUse ''vol1'' [''web-0'', ''web-1'']) \<and>
   checkPVCMountStatus (\<lambda>p. Inr []) pvc0 = None \<and>
   checkPVCMountStatus (\<lambda>p. Inl (ApiError (OtherFailure ''timeout''))) pvc0 =
     Some (Wrapf ''failed to fetch the pvc affinity, '' (Some (ApiError (OtherFailure ''timeout''))))"
  using C9_checkPVCMountStatus[where lookup = "\<lambda>p. Inr pods_web" and pvc = pvc0 and pods = pods_web]
    C9_checkPVCMountStatus[where lookup = "\<lambda>p. Inr []" and pvc = pvc0]
    C9_checkPVCMountStatus[where lookup = "\<lambda>p. Inl (ApiError (OtherFailure ''timeout''))"
      and pvc = pvc0 and err = "ApiError (OtherFailure ''timeout'')"]
  by (simp add: pods_web_def pvc0_def)

subsection \<open>A failed lookup\<close>

lemma getDestinationPVC_a_upd:
  "getDestinationPVC_a (e\<lparr> api_get_pvc := (\<lambda>tr ns n. Inl kerr) \<rparr>) mrd w =
     (None, w\<lparr> api_calls := api_calls w @ [Get KPVC (mrd_Namespace mrd) (mrd_PVCName mrd)] \<rparr>)"
  by (simp add: getDestinationPVC_a_eq)

lemma getDestinationPVC_b_upd:
  "getDestinationPVC_b (e\<lparr> api_get_pvc := (\<lambda>tr ns n. Inl kerr) \<rparr>) mrd w =
     (None, w\<lparr> api_calls := api_calls w @ [Get KPVC (mrd_Namespace mrd) (mrd_PVCName mrd)] \<rparr>)"
  by (simp add: getDestinationPVC_b_eq)

lemma GetString_api_get_pvc:
  "GetString (e\<lparr> api_get_pvc := g \<rparr>) = GetString e"
  "newClient (e\<lparr> api_get_pvc := g \<rparr>) = newClient e"
  by (intro ext, simp add: GetString_def newClient_def)+

lemma stages_api_get_pvc:
  "newMRD_a_validate (e\<lparr> api_get_pvc := g \<rparr>) = newMRD_a_validate e"
  "newMRD_a_volume (e\<lparr> api_get_pvc := g \<rparr>) = newMRD_a_volume e"
  "newMRD_a_service (e\<lparr> api_get_pvc := g \<rparr>) = newMRD_a_service e"
  "newMRD_b_validate (e\<lparr> api_get_pvc := g \<rparr>) = newMRD_b_validate e"
  "newMRD_b_volume (e\<lparr> api_get_pvc := g \<rparr>) = newMRD_b_volume e"
  "newMRD_b_service (e\<lparr> api_get_pvc := g \<rparr>) = newMRD_b_service e"
  unfolding newMRD_a_validate_def newMRD_a_volume_def newMRD_a_service_def
    newMRD_b_validate_def newMRD_b_volume_def newMRD_b_service_def GetString_api_get_pvc
  by (rule refl)+

lemma newMRD_a_lookup_failed:
  "newMigrationRelationshipDestination_a (e\<lparr> api_get_pvc := (\<lambda>tr ns n. Inl kerr) \<rparr>) w =
   newMigrationRelationshipDestination_a (e\<lparr> api_get_pvc := (\<lambda>tr ns n. Inl NotFound) \<rparr>) w"
  unfolding newMigrationRelationshipDestination_a_def stages_api_get_pvc getDestinationPVC_a_upd
  by (rule refl)

lemma newMRD_b_lookup_failed:
  "newMigrationRelationshipDestination_b (e\<lparr> api_get_pvc := (\<lambda>tr ns n. Inl kerr) \<rparr>) w =
   newMigrationRelationshipDestination_b (e\<lparr> api_get_pvc := (\<lambda>tr ns n. Inl NotFound) \<rparr>) w"
  unfolding newMigrationRelationshipDestination_b_def stages_api_get_pvc getDestinationPVC_b_upd
  by (rule refl)

lemma newMRD_a_creation_branch:
  assumes fail: "\<And>ns n. isl (api_get_pvc e (api_calls w) ns n)"
    and run: "newMigrationRelationshipDestination_a e w = (Inr (pvc, mrd), w')"
  shows "pvc = None \<and> (\<exists>cap. flags e ''capacity'' = Some cap \<and> cap \<noteq> [] \<and>
       Capacity (mrd_Destination mrd) = Some (Quantity cap))"
proof -
  from run obtain mrd1 mrd2 where
    v: "newMRD_a_validate e = Inr mrd1"
    and p: "pvc = (case api_get_pvc e (api_calls w) (mrd_Namespace mrd1) (mrd_PVCName mrd1) of
                     Inl err \<Rightarrow> None | Inr p \<Rightarrow> Some p)"
    and vol: "newMRD_a_volume e pvc mrd1 = Inr mrd2"
    and svc: "newMRD_a_service e mrd2 = Inr mrd"
    unfolding newMigrationRelationshipDestination_a_def getDestinationPVC_a_eq
    by (auto split: sum.splits)
  from p fail[of "mrd_Namespace mrd1" "mrd_PVCName mrd1"] have none: "pvc = None"
    by (cases "api_get_pvc e (api_calls w) (mrd_Namespace mrd1) (mrd_PVCName mrd1)") auto
  from vol none obtain cap where "flags e ''capacity'' = Some cap" "cap \<noteq> []"
    "Capacity (mrd_Destination mrd2) = Some (Quantity cap)"
    by (auto simp: newMRD_a_volume_def GetString_def Let_def
        split: option.splits sum.splits if_splits)
  moreover from svc have "Capacity (mrd_Destination mrd) = Capacity (mrd_Destination mrd2)"
    by (auto simp: newMRD_a_service_def GetString_def split: option.splits if_splits)
  ultimately show ?thesis using none by auto
qed

lemma newMRD_b_creation_branch:
  assumes fail: "\<And>ns n. isl (api_get_pvc e (api_calls w) ns n)"
    and run: "newMigrationRelationshipDestination_b e w = (Inr mrd, w')"
  shows "mrd_PVC mrd = None \<and> (\<exists>cap. flags e ''capacity'' = Some cap \<and> cap \<noteq> [] \<and>
       Capacity (mrd_Destination mrd) = Some (Quantity cap))"
proof -
  from run obtain mrd1 mrd2 pvc where
    v: "newMRD_b_validate e = Inr mrd1"
    and p: "pvc = (case api_get_pvc e (api_calls w) (mrd_Namespace mrd1) (mrd_PVCName mrd1) of
                     Inl err \<Rightarrow> None | Inr p \<Rightarrow> Some p)"
    and vol: "newMRD_b_volume e pvc (mrd1\<lparr> mrd_PVC := pvc \<rparr>) = Inr mrd2"
    and svc: "newMRD_b_service e mrd2 = Inr mrd"
    unfolding newMigrationRelationshipDestination_b_def getDestinationPVC_b_eq
    by (auto split: sum.splits)
  from p fail[of "mrd_Namespace mrd1" "mrd_PVCName mrd1"] have none: "pvc = None"
    by (cases "api_get_pvc e (api_calls w) (mrd_Namespace mrd1) (mrd_PVCName mrd1)") auto
  from vol none obtain cap where "flags e ''capacity'' = Some cap" "cap \<noteq> []"
    "Capacity (mrd_Destination mrd2) = Some (Quantity cap)" "mrd_PVC mrd2 = None"
    by (auto simp: newMRD_b_volume_def GetString_def Let_def
        split: option.splits sum.splits if_splits)
  moreover from svc have "Capacity (mrd_Destination mrd) = Capacity (mrd_Destination mrd2) \<and>
      mrd_PVC mrd = mrd_PVC mrd2"
    by (auto simp: newMRD_b_service_def GetString_def split: option.splits if_splits)
  ultimately show ?thesis by auto
qed

text \<open>Claim C10. \<open>getDestinationPVC\<close> returns nil on every error of \<open>Get\<close>, in both
  versions; \<open>newMigrationRelationshipDestination\<close> cannot tell a lookup that failed from a
  PVC that is absent: it returns the same with either, takes the creation branch, and
  goes through only when a capacity is given.\<close>

theorem C10_lookup_failure_means_absent:
  "(api_get_pvc e (api_calls w) (mrd_Namespace mrd) (mrd_PVCName mrd) = Inl kerr \<longrightarrow>
      getDestinationPVC_a e mrd w =
        (None, w\<lparr> api_calls := api_calls w @ [Get KPVC (mrd_Namespace mrd) (mrd_PVCName mrd)] \<rparr>) \<and>
      getDestinationPVC_b e mrd w =
        (None, w\<lparr> api_calls := api_calls w @ [Get KPVC (mrd_Namespace mrd) (mrd_PVCName mrd)] \<rparr>)) \<and>
   newMigrationRelationshipDestination_a (e\<lparr> api_get_pvc := (\<lambda>tr ns n. Inl kerr) \<rparr>) w =
     newMigrationRelationshipDestination_a (e\<lparr> api_get_pvc := (\<lambda>tr ns n. Inl NotFound) \<rparr>) w \<and>
   newMigrationRelationshipDestination_b (e\<lparr> api_get_pvc := (\<lambda>tr ns n. Inl kerr) \<rparr>) w =
     newMigrationRelationshipDestination_b (e\<lparr> api_get_pvc := (\<lambda>tr ns n. Inl NotFound) \<rparr>) w \<and>
   ((\<forall>ns n. isl (api_get_pvc e (api_calls w) ns n)) \<and>
    newMigrationRelationshipDestination_a e w = (Inr (pvc, mrd'), w') \<longrightarrow>
      pvc = None \<and> (\<exists>cap. flags e ''capacity'' = Some cap \<and> cap \<noteq> [] \<and>
         Capacity (mrd_Destination mrd') = Some (Quantity cap))) \<and>
   ((\<forall>ns n. isl (api_get_pvc e (api_calls w) ns n)) \<and>
    newMigrationRelationshipDestination_b e w = (Inr mrd', w') \<longrightarrow>
      mrd_PVC mrd' = None \<and> (\<exists>cap. flags e ''capacity'' = Some cap \<and> cap \<noteq> [] \<and>
         Capacity (mrd_Destination mrd') = Some (Quantity cap)))"
proof (intro conjI impI)
  assume "api_get_pvc e (api_calls w) (mrd_Namespace mrd) (mrd_PVCName mrd) = Inl kerr"
  then show "getDestinationPVC_a e mrd w =
        (None, w\<lparr> api_calls := api_calls w @ [Get KPVC (mrd_Namespace mrd) (mrd_PVCName mrd)] \<rparr>)"
    and "getDestinationPVC_b e mrd w =
        (None, w\<lparr> api_calls := api_calls w @ [Get KPVC (mrd_Namespace mrd) (mrd_PVCName mrd)] \<rparr>)"
    by (simp_all add: getDestinationPVC_a_eq getDestinationPVC_b_eq)
next
  show "newMigrationRelationshipDestination_a (e\<lparr> api_get_pvc := (\<lambda>tr ns n. Inl kerr) \<rparr>) w =
     newMigrationRelationshipDestination_a (e\<lparr> api_get_pvc := (\<lambda>tr ns n. Inl NotFound) \<rparr>) w"
    by (rule newMRD_a_lookup_failed)
  show "newMigrationRelationshipDestination_b (e\<lparr> api_get_pvc := (\<lambda>tr ns n. Inl kerr) \<rparr>) w =
     newMigrationRelationshipDestination_b (e\<lparr> api_get_pvc := (\<lambda>tr ns n. Inl NotFound) \<rparr>) w"
    by (rule newMRD_b_lookup_failed)
next
  assume h: "(\<forall>ns n. isl (api_get_pvc e (api_calls w) ns n)) \<and>
    newMigrationRelationshipDestination_a e w = (Inr (pvc, mrd'), w')"
  then have f: "\<And>ns n. isl (api_get_pvc e (api_calls w) ns n)" by simp
  from newMRD_a_creation_branch[OF f conjunct2[OF h]]
  show "pvc = None" and "\<exists>cap. flags e ''capacity'' = Some cap \<and> cap \<noteq> [] \<and>
         Capacity (mrd_Destination mrd') = Some (Quantity cap)" by simp_all
next
  assume h: "(\<forall>ns n. isl (api_get_pvc e (api_calls w) ns n)) \<and>
    newMigrationRelationshipDestination_b e w = (Inr mrd', w')"
  then have f: "\<And>ns n. isl (api_get_pvc e (api_calls w) ns n)" by simp
  from newMRD_b_creation_branch[OF f conjunct2[OF h]]
  show "mrd_PVC mrd' = None" and "\<exists>cap. flags e ''capacity'' = Some cap \<and> cap \<noteq> [] \<and>
         Capacity (mrd_Destination mrd') = Some (Quantity cap)" by simp_all
qed

text \<open>Claim C10 on a lookup that times out: the PVC counts as absent and the volume is
  built from the flags.\<close>

theorem C10_lookup_failure_means_absent_witness:
  "getDestinationPVC_a env_lookup_timeout mrd_from_flags world0 =
     (None, world0\<lparr> api_calls := [Get KPVC ''ns1'' ''vol1''] \<rparr>) \<and>
   getDestinationPVC_b env_lookup_timeout mrd_from_flags world0 =
     (None, world0\<lparr> api_calls := [Get KPVC ''ns1'' ''vol1''] \<rparr>) \<and>
   newMigrationRelationshipDestination_a env_lookup_timeout world0 =
     (Inr (None, mrd_from_flags), world0\<lparr> api_calls := [Get KPVC ''ns1'' ''vol1''] \<rparr>) \<and>
   Capacity (mrd_Destination mrd_from_flags) = Some (Quantity ''10Gi'')"
proof -
  have run: "newMigrationRelationshipDestination_a env_lookup_timeout world0 =
     (Inr (None, mrd_from_flags), world0\<lparr> api_calls := [Get KPVC ''ns1'' ''vol1''] \<rparr>)"
    by (simp add: env_lookup_timeout_def mrd_from_flags_def migration_examples newMRD_a_eval)
  have get: "api_get_pvc env_lookup_timeout (api_calls world0) (mrd_Namespace mrd_from_flags)
      (mrd_PVCName mrd_from_flags) = Inl (OtherFailure ''timeout'')"
    by (simp add: env_lookup_timeout_def cluster0_def)
  have fail: "\<forall>ns n. isl (api_get_pvc env_lookup_timeout (api_calls world0) ns n)"
    by (simp add: env_lookup_timeout_def cluster0_def)
  show ?thesis
    using C10_lookup_failure_means_absent[where e = env_lookup_timeout and w = world0
        and mrd = mrd_from_flags and kerr = "OtherFailure ''timeout''" and pvc = None
        and mrd' = mrd_from_flags and w' = "world0\<lparr> api_calls := [Get KPVC ''ns1'' ''vol1''] \<rparr>"]
      run get fail
    by (simp add: mrd_from_flags_def world0_def)
qed

subsection \<open>What the other paths do\<close>

text \<open>Once the record is saved, the run of lines 558-596 returns nil whatever follows.\<close>

lemma Run_b_returns_nil:
  "newmigrationRelationship e = Inr m \<Longrightarrow> migrationRelationship_Save_b e m w = (None, w1) \<Longrightarrow>
   fst (migrationCreate_Run_b e w) = None"
  by (simp add: migrationCreate_Run_b_def split: sum.split prod.split option.split)

text \<open>Already-exists: swallowed for a namespace and by \<open>createSecret\<close>, returned by the
  functions that create the intent objects. The run of lines 558-596 then drops what
  \<open>CreateDestination\<close> returns, as it drops every error after the save
  (\<open>Run_b_returns_nil\<close>).\<close>

lemma already_exists_elsewhere:
  assumes "\<And>ob. api_create e (api_calls w) ob = Some AlreadyExists"
  shows "fst (createNamespace_a e mrd w) = None"
    and "fst (createNamespace_b e mrd w) = None"
    and "fst (createSecret e sec w) = None"
    and "fst (createDestination e mrd w) = Inl (ApiError AlreadyExists)"
    and "fst (CreateDestination e mrd w) = Some (ApiError AlreadyExists)"
    and "pd_Source (pr_data (pc_pr pc)) \<noteq> None \<Longrightarrow>
           fst (ensureReplicationSource e pc w) = Inl (ApiError AlreadyExists)"
  using assms
  by (auto simp: createNamespace_a_def createNamespace_b_def createSecret_def
      createDestination_def CreateDestination_def ensureReplicationSource_def
      client_Create_def IsAlreadyExists_def Let_def)

text \<open>The schedule of a parse that went through was accepted by the cron parser, empty
  or not.\<close>

lemma parseCLI_schedule_was_parsed:
  assumes "parseCLI e pc = Inr pc'"
    and "rc_Viper (pc_resticConfig pc') ''RESTIC_REPOSITORY'' = Some (ConfString repo)"
  shows "\<exists>cs. flags e ''cronspec'' = Some cs \<and> cron_err e cs = None \<and> pc_schedule pc' = cs"
  using assms
  unfolding parseCLI_def Let_def
  by (auto simp: GetString_def parseCronSpec_def
      split: sum.splits option.splits if_splits confval.splits)

text \<open>The first version reads the volume from a PVC that exists and never creates it.\<close>

lemma newMRD_a_reuses_existing_pvc:
  assumes v: "flags e ''copymethod'' = Some cm"
      "cm \<in> {CopyMethodDirect, CopyMethodClone, CopyMethodSnapshot}"
      "flags e ''pvcname'' = Some pn" "ParseXClusterName pn = Inr xcr"
      "newClient_err e [] = None"
    and get: "api_get_pvc e (api_calls w) (xcr_Namespace xcr) (xcr_Name xcr) = Inr p"
    and svc: "flags e ''servicetype'' = Some st"
      "st \<in> {ServiceTypeClusterIP, ServiceTypeLoadBalancer}"
  shows "\<exists>mrd. newMigrationRelationshipDestination_a e w =
       (Inr (Some p, mrd),
        w\<lparr> api_calls := api_calls w @ [Get KPVC (xcr_Namespace xcr) (xcr_Name xcr)] \<rparr>) \<and>
     Capacity (mrd_Destination mrd) = Some (Requests_Storage p) \<and>
     AccessModes (mrd_Destination mrd) = pvc_AccessModes p \<and>
     StorageClassName (mrd_Destination mrd) = pvc_StorageClassName p"
  using get svc
  by (auto simp: newMigrationRelationshipDestination_a_def newMRD_a_validate_ok[OF v]
      getDestinationPVC_a_eq newMRD_a_volume_def newMRD_a_service_def GetString_def)

lemma createDestination_keeps_volume:
  "createDestination e mrd w = (Inr mrd', w') \<Longrightarrow>
     Capacity (mrd_Destination mrd') = Capacity (mrd_Destination mrd) \<and>
     AccessModes (mrd_Destination mrd') = AccessModes (mrd_Destination mrd) \<and>
     StorageClassName (mrd_Destination mrd') = StorageClassName (mrd_Destination mrd)"
  by (auto simp: createDestination_def Let_def split: option.splits prod.splits)

lemma pvc_creates_after_polls:
  "filter is_pvc_create (api_calls (after_polls w (Get k ns n) j d)) =
     filter is_pvc_create (api_calls w)"
  by (simp add: after_polls_def)

lemma Save_a_document:
  "migrationRelationship_Save_a e mr w = (None, w') \<Longrightarrow>
     \<exists>rest. w' = w\<lparr> saved := saved w @
        [rel_settings (mr_rel mr) @ (''data'', VMigration (mr_data mr)) # rest] \<rparr>"
  by (auto simp: migrationRelationship_Save_a_def Relationship_Save_def rel_Set_def Let_def
      split: option.splits)

lemma Run_a_reuse:
  assumes v: "flags e ''copymethod'' = Some cm"
      "cm \<in> {CopyMethodDirect, CopyMethodClone, CopyMethodSnapshot}"
      "flags e ''pvcname'' = Some pn" "ParseXClusterName pn = Inr xcr"
      "newClient_err e [] = None"
    and get: "api_get_pvc e (api_calls w) (xcr_Namespace xcr) (xcr_Name xcr) = Inr p"
    and svc: "flags e ''servicetype'' = Some st"
      "st \<in> {ServiceTypeClusterIP, ServiceTypeLoadBalancer}"
    and run: "migrationCreate_Run_a e w = (r, w')"
  shows "filter is_pvc_create (api_calls w') = filter is_pvc_create (api_calls w) \<and>
     (r = None \<longrightarrow> (\<exists>doc mrd. saved w' = saved w @ [doc] \<and>
        (''data'', VMigration \<lparr> md_Version = 1, md_Source = None, md_Destination = Some mrd \<rparr>)
           \<in> set doc \<and>
        Capacity (mrd_Destination mrd) = Some (Requests_Storage p) \<and>
        AccessModes (mrd_Destination mrd) = pvc_AccessModes p \<and>
        StorageClassName (mrd_Destination mrd) = pvc_StorageClassName p))"
proof (cases "newmigrationRelationship e")
  case (Inl err)
  with run show ?thesis by (auto simp: migrationCreate_Run_a_def)
next
  case (Inr m)
  then have m: "mr_data m = \<lparr> md_Version = 1, md_Source = None, md_Destination = None \<rparr>"
    by (auto simp: newmigrationRelationship_def split: sum.splits)
  let ?w1 = "w\<lparr> api_calls := api_calls w @ [Get KPVC (xcr_Namespace xcr) (xcr_Name xcr)] \<rparr>"
  from newMRD_a_reuses_existing_pvc[OF v get svc] obtain mrd where
    d: "newMigrationRelationshipDestination_a e w = (Inr (Some p, mrd), ?w1)"
    and vol: "Capacity (mrd_Destination mrd) = Some (Requests_Storage p)"
      "AccessModes (mrd_Destination mrd) = pvc_AccessModes p"
      "StorageClassName (mrd_Destination mrd) = pvc_StorageClassName p" by blast
  obtain r2 w2 where s2: "createNamespace_a e mrd ?w1 = (r2, w2)"
    by (cases "createNamespace_a e mrd ?w1")
  have c2: "filter is_pvc_create (api_calls w2) = filter is_pvc_create (api_calls w)"
    using createNamespace_a_frame[OF s2] by simp
  show ?thesis
  proof (cases r2)
    case (Some err)
    with run Inr d s2 c2 show ?thesis by (auto simp: migrationCreate_Run_a_def)
  next
    case ns: None
    obtain r4 w4 where s4: "createDestination e mrd w2 = (r4, w4)"
      by (cases "createDestination e mrd w2")
    have c4: "filter is_pvc_create (api_calls w4) = filter is_pvc_create (api_calls w)"
      using createDestination_frame[OF s4] c2 by (auto simp: pvc_creates_after_polls)
    show ?thesis
    proof (cases r4)
      case (Inl err)
      with run Inr d s2 ns s4 c4 show ?thesis by (auto simp: migrationCreate_Run_a_def)
    next
      case m4: (Inr mrd4)
      note keep = createDestination_keeps_volume[OF s4[unfolded m4]]
      let ?mr = "m\<lparr> mr_data := (mr_data m)\<lparr> md_Destination := Some mrd4 \<rparr> \<rparr>"
      obtain r5 w5 where s5: "migrationRelationship_Save_a e ?mr w4 = (r5, w5)"
        by (cases "migrationRelationship_Save_a e ?mr w4")
      have fin: "r = (case r5 of None \<Rightarrow> None
          | Some err \<Rightarrow> Some (Wrapf ''unable to save relationship configuration: '' (Some err)))
          \<and> w' = w5"
        using run Inr d s2 ns s4 m4 s5
        by (auto simp: migrationCreate_Run_a_def split: option.splits)
      have c5: "api_calls w5 = api_calls w4" by (rule Save_a_rd_names[OF s5])
      show ?thesis
      proof (cases r5)
        case (Some err)
        with fin c4 c5 show ?thesis by simp
      next
        case None
        from Save_a_document[OF s5[unfolded None]] obtain rest where
          "w5 = w4\<lparr> saved := saved w4 @
             [rel_settings (mr_rel ?mr) @ (''data'', VMigration (mr_data ?mr)) # rest] \<rparr>" by blast
        moreover have "saved w4 = saved w"
          using createDestination_frame[OF s4] createNamespace_a_frame[OF s2]
          by (auto simp: saved_after_polls)
        ultimately have "saved w5 = saved w @
             [rel_settings (mr_rel ?mr) @ (''data'', VMigration (mr_data ?mr)) # rest]" by simp
        moreover have "mr_data ?mr =
            \<lparr> md_Version = 1, md_Source = None, md_Destination = Some mrd4 \<rparr>"
          using m by simp
        ultimately show ?thesis using fin None c4 c5 keep vol
          by (intro conjI impI exI[of _ "rel_settings (mr_rel ?mr) @
                (''data'', VMigration (mr_data ?mr)) # rest"] exI[of _ mrd4]) simp_all
      qed
    qed
  qed
qed

end
